theory Spec2Isabelle
  imports Main "HOL-Library.Word"
begin

section \<open>Error numbers and kernel semaphores\<close>

text \<open>
  The error numbers come from the C library's errno.h, which is not part of the
  repository; the values are those of Zephyr's minimal libc. No result below depends on
  the numbers beyond their being positive and pairwise different.
\<close>

definition EIO :: int where "EIO = 5"
definition EAGAIN :: int where "EAGAIN = 11"
definition EWOULDBLOCK :: int where "EWOULDBLOCK = EAGAIN"
definition ENODEV :: int where "ENODEV = 19"
definition EINVAL :: int where "EINVAL = 22"
definition ETIMEDOUT :: int where "ETIMEDOUT = 116"

text \<open>
  \<^verbatim>\<open>K_SEM_DEFINE(name, 0, 1)\<close>: a counting semaphore with initial count 0 and limit 1.
  The model keeps the count. \<^verbatim>\<open>k_sem_give\<close> raises the count unless it is at the
  limit, \<^verbatim>\<open>k_sem_reset\<close> clears it, and \<^verbatim>\<open>k_sem_take\<close> with a timeout either
  consumes a pending signal (result 0) or, with nothing pending when the wait ends,
  returns \<^verbatim>\<open>-EAGAIN\<close>.
\<close>

definition K_SEM_LIMIT :: nat where "K_SEM_LIMIT = 1"

definition k_sem_give :: "nat \<Rightarrow> nat" where
  "k_sem_give c = (if c \<noteq> K_SEM_LIMIT then c + 1 else c)"

definition k_sem_reset :: "nat \<Rightarrow> nat" where
  "k_sem_reset c = 0"

definition k_sem_take :: "nat \<Rightarrow> int \<times> nat" where
  "k_sem_take c = (if 0 < c then (0, c - 1) else (- EAGAIN, c))"

section \<open>Session context (wifi\_p2p\_utils.h)\<close>

datatype wifi_p2p_role =
    WIFI_P2P_ROLE_UNDETERMINED
  | WIFI_P2P_ROLE_GO
  | WIFI_P2P_ROLE_CLI

datatype wifi_p2p_state =
    WIFI_P2P_STATE_IDLE
  | WIFI_P2P_STATE_FINDING
  | WIFI_P2P_STATE_FOUND
  | WIFI_P2P_STATE_CONNECTING
  | WIFI_P2P_STATE_CONNECTED
  | WIFI_P2P_STATE_GROUP_FORMED
  | WIFI_P2P_STATE_ERROR

datatype wifi_p2p_event =
    WIFI_P2P_EVENT_DEVICE_FOUND
  | WIFI_P2P_EVENT_GROUP_STARTED
  | WIFI_P2P_EVENT_CONNECTED
  | WIFI_P2P_EVENT_CONNECT_FAILED
  | WIFI_P2P_EVENT_PEER_JOINED
  | WIFI_P2P_EVENT_AP_STA_CONNECTED
  | WIFI_P2P_EVENT_PEER_LEFT
  | WIFI_P2P_EVENT_DISCONNECTED

definition WIFI_MAC_ADDR_LEN :: nat where "WIFI_MAC_ADDR_LEN = 6"

text \<open>A hardware address is an array of \<^verbatim>\<open>uint8_t\<close>; the code reads its first six bytes.\<close>

type_synonym mac_addr = "8 word list"

definition memcmp_mac :: "mac_addr \<Rightarrow> mac_addr \<Rightarrow> bool" where
  "memcmp_mac a b \<longleftrightarrow> take WIFI_MAC_ADDR_LEN a = take WIFI_MAC_ADDR_LEN b"

definition zero_mac :: mac_addr where
  "zero_mac = replicate WIFI_MAC_ADDR_LEN 0"

record wifi_p2p_context =
  state :: wifi_p2p_state
  role :: wifi_p2p_role
  peer_mac :: mac_addr
  own_mac :: mac_addr
  peer_count :: "16 word"
  go_intent :: "8 word"
  frequency :: "32 word"
  group_formed :: bool
  connected :: bool

text \<open>
  \<^verbatim>\<open>struct wifi_p2p_device_info\<close> is declared by the radio subsystem's headers, outside
  the repository. The code reads three of its fields. The width of \<^verbatim>\<open>rssi\<close> is not
  visible in the repository: it is a signed integer that the code promotes to
  \<^verbatim>\<open>int\<close>, so the model keeps the promoted value.
\<close>

record wifi_p2p_device_info =
  mac :: mac_addr
  device_name :: string
  rssi :: int

text \<open>Requests handed to the radio subsystem through \<^verbatim>\<open>net_mgmt\<close>, and interface calls.\<close>

datatype ext_call =
    NetIfUp
  | NetIfCarrierOn
  | NetIfDormantOff
  | NetMgmtAddEventCallback
  | ReqP2pFind "16 word"
  | ReqP2pStopFind
  | ReqP2pConnect mac_addr "8 word" "32 word"
  | ReqP2pGroupAdd "32 word"
  | ReqP2pGroupRemove
  | ReqP2pPeer "16 word"

text \<open>
  The file-scope state of wifi\_p2p\_utils.c: the context, the five semaphores, the user
  callback (registered or \<^verbatim>\<open>NULL\<close>) with the notifications it has received, whether
  \<^verbatim>\<open>net_if_get_first_wifi\<close> finds an interface, and the external calls made so far.
\<close>

record p2p_module =
  p2p_ctx :: wifi_p2p_context
  p2p_find_sem :: nat
  p2p_connect_sem :: nat
  p2p_group_formed_sem :: nat
  p2p_go_neg_request_sem :: nat
  p2p_ap_sta_connected_sem :: nat
  user_event_cb :: bool
  delivered :: "wifi_p2p_event list"
  wifi_iface :: bool
  calls :: "ext_call list"

definition ctx_upd :: "(wifi_p2p_context \<Rightarrow> wifi_p2p_context) \<Rightarrow> p2p_module \<Rightarrow> p2p_module" where
  "ctx_upd f m = m\<lparr>p2p_ctx := f (p2p_ctx m)\<rparr>"

definition ext :: "ext_call \<Rightarrow> p2p_module \<Rightarrow> p2p_module" where
  "ext c m = m\<lparr>calls := calls m @ [c]\<rparr>"

definition notify_user_event :: "wifi_p2p_event \<Rightarrow> p2p_module \<Rightarrow> p2p_module" where
  "notify_user_event event m =
     (if user_event_cb m then m\<lparr>delivered := delivered m @ [event]\<rparr> else m)"

section \<open>Event dispatcher (wifi\_p2p\_utils.c)\<close>

text \<open>The notifications of the radio subsystem, each with the payload the handler reads.\<close>

datatype net_event =
    NET_EVENT_WIFI_P2P_DEVICE_FOUND "wifi_p2p_device_info option"
  | NET_EVENT_WIFI_CONNECT_RESULT int
  | NET_EVENT_WIFI_AP_ENABLE_RESULT int
  | NET_EVENT_WIFI_AP_STA_CONNECTED mac_addr
  | NET_EVENT_WIFI_AP_STA_DISCONNECTED mac_addr
  | NET_EVENT_OTHER

definition handle_p2p_device_found :: "wifi_p2p_device_info option \<Rightarrow> p2p_module \<Rightarrow> p2p_module" where
  "handle_p2p_device_found info m =
     (case info of
        None \<Rightarrow> m
      | Some peer_info \<Rightarrow>
          (let m1 = ctx_upd (\<lambda>c. c\<lparr>peer_mac := take WIFI_MAC_ADDR_LEN (mac peer_info)\<rparr>) m;
               m2 = ctx_upd (\<lambda>c. c\<lparr>peer_count := peer_count c + 1\<rparr>) m1;
               m3 = ctx_upd (\<lambda>c. c\<lparr>state := WIFI_P2P_STATE_FOUND\<rparr>) m2;
               m4 = m3\<lparr>p2p_find_sem := k_sem_give (p2p_find_sem m3)\<rparr>
           in notify_user_event WIFI_P2P_EVENT_DEVICE_FOUND m4))"

definition handle_p2p_connect_result :: "int \<Rightarrow> p2p_module \<Rightarrow> p2p_module" where
  "handle_p2p_connect_result status m =
     (if status = 0 then
        (let m1 = (if role (p2p_ctx m) \<noteq> WIFI_P2P_ROLE_GO
                   then notify_user_event WIFI_P2P_EVENT_CONNECTED
                          (ctx_upd (\<lambda>c. c\<lparr>role := WIFI_P2P_ROLE_CLI\<rparr>) m)
                   else notify_user_event WIFI_P2P_EVENT_PEER_JOINED m);
             m2 = ctx_upd (\<lambda>c. c\<lparr>state := WIFI_P2P_STATE_CONNECTED,
                                  connected := True, group_formed := True\<rparr>) m1;
             m3 = m2\<lparr>p2p_connect_sem := k_sem_give (p2p_connect_sem m2)\<rparr>
         in m3\<lparr>p2p_group_formed_sem := k_sem_give (p2p_group_formed_sem m3)\<rparr>)
      else if state (p2p_ctx m) = WIFI_P2P_STATE_CONNECTING then m
      else
        (let m1 = ctx_upd (\<lambda>c. c\<lparr>state := WIFI_P2P_STATE_ERROR\<rparr>) m;
             m2 = notify_user_event WIFI_P2P_EVENT_CONNECT_FAILED m1;
             m3 = m2\<lparr>p2p_connect_sem := k_sem_give (p2p_connect_sem m2)\<rparr>
         in m3\<lparr>p2p_group_formed_sem := k_sem_give (p2p_group_formed_sem m3)\<rparr>))"

definition iface_bring_up :: "p2p_module \<Rightarrow> p2p_module" where
  "iface_bring_up m =
     (if wifi_iface m then ext NetIfDormantOff (ext NetIfCarrierOn (ext NetIfUp m)) else m)"

definition handle_ap_enable_result :: "int \<Rightarrow> p2p_module \<Rightarrow> p2p_module" where
  "handle_ap_enable_result status m =
     (if status = 0 then
        (let m1 = ctx_upd (\<lambda>c. c\<lparr>role := WIFI_P2P_ROLE_GO, group_formed := True,
                                  state := WIFI_P2P_STATE_GROUP_FORMED, connected := True\<rparr>) m;
             m2 = iface_bring_up m1;
             m3 = m2\<lparr>p2p_group_formed_sem := k_sem_give (p2p_group_formed_sem m2)\<rparr>
         in notify_user_event WIFI_P2P_EVENT_GROUP_STARTED m3)
      else
        (let m1 = ctx_upd (\<lambda>c. c\<lparr>state := WIFI_P2P_STATE_ERROR\<rparr>) m;
             m2 = m1\<lparr>p2p_group_formed_sem := k_sem_give (p2p_group_formed_sem m1)\<rparr>
         in notify_user_event WIFI_P2P_EVENT_CONNECT_FAILED m2))"

definition handle_ap_sta_connected :: "mac_addr \<Rightarrow> p2p_module \<Rightarrow> p2p_module" where
  "handle_ap_sta_connected sta_mac m =
     (let m1 = ctx_upd (\<lambda>c. c\<lparr>connected := True,
                               peer_mac := take WIFI_MAC_ADDR_LEN sta_mac\<rparr>) m;
          m2 = notify_user_event WIFI_P2P_EVENT_PEER_JOINED m1;
          m3 = m2\<lparr>p2p_ap_sta_connected_sem := k_sem_give (p2p_ap_sta_connected_sem m2)\<rparr>
      in notify_user_event WIFI_P2P_EVENT_AP_STA_CONNECTED m3)"

definition handle_ap_sta_disconnected :: "mac_addr \<Rightarrow> p2p_module \<Rightarrow> p2p_module" where
  "handle_ap_sta_disconnected sta_mac m =
     (if memcmp_mac (peer_mac (p2p_ctx m)) sta_mac then
        notify_user_event WIFI_P2P_EVENT_PEER_LEFT
          (ctx_upd (\<lambda>c. c\<lparr>connected := False, peer_mac := zero_mac\<rparr>) m)
      else m)"

fun p2p_mgmt_event_handler :: "net_event \<Rightarrow> p2p_module \<Rightarrow> p2p_module" where
  "p2p_mgmt_event_handler (NET_EVENT_WIFI_P2P_DEVICE_FOUND info) m = handle_p2p_device_found info m"
| "p2p_mgmt_event_handler (NET_EVENT_WIFI_CONNECT_RESULT status) m = handle_p2p_connect_result status m"
| "p2p_mgmt_event_handler (NET_EVENT_WIFI_AP_ENABLE_RESULT status) m = handle_ap_enable_result status m"
| "p2p_mgmt_event_handler (NET_EVENT_WIFI_AP_STA_CONNECTED sta_mac) m = handle_ap_sta_connected sta_mac m"
| "p2p_mgmt_event_handler (NET_EVENT_WIFI_AP_STA_DISCONNECTED sta_mac) m = handle_ap_sta_disconnected sta_mac m"
| "p2p_mgmt_event_handler NET_EVENT_OTHER m = m"

definition deliver :: "net_event list \<Rightarrow> p2p_module \<Rightarrow> p2p_module" where
  "deliver evs m = foldl (\<lambda>s e. p2p_mgmt_event_handler e s) m evs"

section \<open>Orchestrator operations (wifi\_p2p\_utils.c)\<close>

text \<open>
  Each operation returns the C return value and the new module state. The result of the
  \<^verbatim>\<open>net_mgmt\<close> request, decided by the radio subsystem, is the argument \<open>ret\<close>.
\<close>

definition zero_ctx :: wifi_p2p_context where
  "zero_ctx = \<lparr>state = WIFI_P2P_STATE_IDLE, role = WIFI_P2P_ROLE_UNDETERMINED,
               peer_mac = zero_mac, own_mac = zero_mac, peer_count = 0, go_intent = 0,
               frequency = 0, group_formed = False, connected = False\<rparr>"

definition wifi_p2p_init :: "p2p_module \<Rightarrow> int \<times> p2p_module" where
  "wifi_p2p_init m =
     (let m1 = m\<lparr>p2p_ctx := zero_ctx\<rparr>;
          m2 = ctx_upd (\<lambda>c. c\<lparr>state := WIFI_P2P_STATE_IDLE\<rparr>) m1;
          m3 = ctx_upd (\<lambda>c. c\<lparr>role := WIFI_P2P_ROLE_UNDETERMINED\<rparr>) m2;
          m4 = m3\<lparr>p2p_find_sem := k_sem_reset (p2p_find_sem m3),
                  p2p_connect_sem := k_sem_reset (p2p_connect_sem m3),
                  p2p_group_formed_sem := k_sem_reset (p2p_group_formed_sem m3),
                  p2p_go_neg_request_sem := k_sem_reset (p2p_go_neg_request_sem m3),
                  p2p_ap_sta_connected_sem := k_sem_reset (p2p_ap_sta_connected_sem m3)\<rparr>;
          m5 = iface_bring_up m4
      in (0, ext NetMgmtAddEventCallback m5))"

definition wifi_p2p_register_event_callback :: "bool \<Rightarrow> p2p_module \<Rightarrow> p2p_module" where
  "wifi_p2p_register_event_callback cb m = m\<lparr>user_event_cb := cb\<rparr>"

definition wifi_p2p_find :: "16 word \<Rightarrow> int \<Rightarrow> p2p_module \<Rightarrow> int \<times> p2p_module" where
  "wifi_p2p_find timeout_sec ret m =
     (if \<not> wifi_iface m then (- ENODEV, m)
      else
        (let m1 = ctx_upd (\<lambda>c. c\<lparr>state := WIFI_P2P_STATE_FINDING, peer_count := 0\<rparr>) m;
             m2 = ext (ReqP2pFind timeout_sec) m1
         in if ret \<noteq> 0
            then (ret, ctx_upd (\<lambda>c. c\<lparr>state := WIFI_P2P_STATE_ERROR\<rparr>) m2)
            else (0, m2)))"

definition wifi_p2p_stop_find :: "int \<Rightarrow> p2p_module \<Rightarrow> int \<times> p2p_module" where
  "wifi_p2p_stop_find ret m =
     (if \<not> wifi_iface m then (- ENODEV, m)
      else
        (let m1 = ext ReqP2pStopFind m
         in if ret \<noteq> 0 then (ret, m1)
            else (0, ctx_upd (\<lambda>c. c\<lparr>state := WIFI_P2P_STATE_IDLE\<rparr>) m1)))"

definition wifi_p2p_connect ::
  "mac_addr option \<Rightarrow> 8 word \<Rightarrow> 32 word \<Rightarrow> int \<Rightarrow> p2p_module \<Rightarrow> int \<times> p2p_module" where
  "wifi_p2p_connect peer go_int freq ret m =
     (if \<not> wifi_iface m then (- ENODEV, m)
      else case peer of
        None \<Rightarrow> (- EINVAL, m)
      | Some pm \<Rightarrow>
          (let m1 = ctx_upd (\<lambda>c. c\<lparr>go_intent := go_int, frequency := freq\<rparr>) m;
               m2 = ctx_upd (\<lambda>c. c\<lparr>state := WIFI_P2P_STATE_CONNECTING\<rparr>) m1;
               m3 = ext (ReqP2pConnect (take WIFI_MAC_ADDR_LEN pm) go_int freq) m2
           in if ret \<noteq> 0
              then (ret, ctx_upd (\<lambda>c. c\<lparr>state := WIFI_P2P_STATE_ERROR\<rparr>) m3)
              else if go_int = 15
              then (0, ctx_upd (\<lambda>c. c\<lparr>role := WIFI_P2P_ROLE_GO\<rparr>) m3)
              else if go_int = 0
              then (0, ctx_upd (\<lambda>c. c\<lparr>role := WIFI_P2P_ROLE_CLI\<rparr>) m3)
              else (0, m3)))"

definition wifi_p2p_group_add :: "32 word \<Rightarrow> int \<Rightarrow> p2p_module \<Rightarrow> int \<times> p2p_module" where
  "wifi_p2p_group_add freq ret m =
     (if \<not> wifi_iface m then (- ENODEV, m)
      else
        (let m1 = ext (ReqP2pGroupAdd freq) m
         in if ret \<noteq> 0 then (ret, m1)
            else (0, ctx_upd (\<lambda>c. c\<lparr>role := WIFI_P2P_ROLE_GO, frequency := freq\<rparr>) m1)))"

definition wifi_p2p_group_remove :: "int \<Rightarrow> p2p_module \<Rightarrow> int \<times> p2p_module" where
  "wifi_p2p_group_remove ret m =
     (if \<not> wifi_iface m then (- ENODEV, m)
      else
        (let m1 = ext ReqP2pGroupRemove m
         in if ret \<noteq> 0 then (ret, m1)
            else (0, ctx_upd (\<lambda>c. c\<lparr>group_formed := False, connected := False,
                                     state := WIFI_P2P_STATE_IDLE\<rparr>) m1)))"

section \<open>Peer lookup by address filter (wifi\_p2p\_utils.c)\<close>

text \<open>
  \<^verbatim>\<open>parse_mac_address\<close> reads the filter with the C library's
  \<^verbatim>\<open>sscanf(mac_str, "%x:%x:%x:%x:%x:%x", ...)\<close>. The library is not part of the
  repository, so the conversion is a parameter: a scanner maps the string to the values
  it converted before the first mismatch, and \<^verbatim>\<open>sscanf\<close> returns their number. The
  cast to \<^verbatim>\<open>uint8_t\<close> keeps the low eight bits of each value.
\<close>

type_synonym scanner = "string \<Rightarrow> nat list"

definition parse_mac_address :: "scanner \<Rightarrow> string \<Rightarrow> mac_addr option" where
  "parse_mac_address sscanf_hex mac_str =
     (let bytes = sscanf_hex mac_str
      in if length bytes \<noteq> 6 then None else Some (map (\<lambda>b. (of_nat b :: 8 word)) bytes))"

text \<open>The search loop: the first index, counted from \<open>i\<close>, whose address matches.\<close>

fun find_mac_from :: "wifi_p2p_device_info list \<Rightarrow> mac_addr \<Rightarrow> nat \<Rightarrow> nat option" where
  "find_mac_from [] filter_mac i = None"
| "find_mac_from (p # ps) filter_mac i =
     (if memcmp_mac (mac p) filter_mac then Some i else find_mac_from ps filter_mac (i + 1))"

text \<open>
  The peer array is a pointer (\<open>None\<close> for \<^verbatim>\<open>NULL\<close>) with a separate count, the filter
  a C string or \<^verbatim>\<open>NULL\<close>. The result is the index of the entry the returned pointer
  refers to, \<open>None\<close> for \<^verbatim>\<open>NULL\<close>. The loop visits the entries below
  \<open>peer_count\<close>; the caller passes a count within the array.
\<close>

definition wifi_p2p_find_peer_by_mac ::
  "scanner \<Rightarrow> wifi_p2p_device_info list option \<Rightarrow> 16 word \<Rightarrow> string option \<Rightarrow> nat option" where
  "wifi_p2p_find_peer_by_mac sscanf_hex peers n mac_filter =
     (case peers of
        None \<Rightarrow> None
      | Some ps \<Rightarrow>
          if n = 0 then None
          else case mac_filter of
            None \<Rightarrow> None
          | Some f \<Rightarrow>
              if f = [] then Some 0
              else case parse_mac_address sscanf_hex f of
                None \<Rightarrow> None
              | Some filter_mac \<Rightarrow> find_mac_from (take (unat n) ps) filter_mac 0)"

text \<open>
  A scanner for concrete runs: fields of hexadecimal digits separated by single colons,
  as \<^verbatim>\<open>%x:%x:%x:%x:%x:%x\<close> reads a well-formed address. It stops at the first
  character that fits neither and after six fields.
\<close>

definition hex_digit :: "char \<Rightarrow> nat option" where
  "hex_digit c =
     (let k = of_char c :: nat
      in if 48 \<le> k \<and> k \<le> 57 then Some (k - 48)
         else if 97 \<le> k \<and> k \<le> 102 then Some (k - 87)
         else if 65 \<le> k \<and> k \<le> 70 then Some (k - 55)
         else None)"

fun scan_hex :: "string \<Rightarrow> nat option \<Rightarrow> nat list \<Rightarrow> nat list" where
  "scan_hex [] cur acc = (case cur of None \<Rightarrow> acc | Some v \<Rightarrow> acc @ [v])"
| "scan_hex (c # cs) cur acc =
     (case hex_digit c of
        Some d \<Rightarrow> scan_hex cs (Some ((case cur of None \<Rightarrow> 0 | Some v \<Rightarrow> v) * 16 + d)) acc
      | None \<Rightarrow>
          (case cur of
             None \<Rightarrow> acc
           | Some v \<Rightarrow>
               if c = CHR '':'' \<and> length acc < 5 then scan_hex cs None (acc @ [v])
               else acc @ [v]))"

definition sscanf_mac :: scanner where
  "sscanf_mac str = scan_hex str None []"

section \<open>Runs of the module\<close>

text \<open>
  The steps that change the module state: the orchestrator operations, each with the
  result of its request, and the delivery of a notification. A run starts from the
  zero-initialised file-scope state.
\<close>

datatype p2p_action =
    ActInit
  | ActFind "16 word" int
  | ActStopFind int
  | ActConnect "mac_addr option" "8 word" "32 word" int
  | ActGroupAdd "32 word" int
  | ActGroupRemove int
  | ActEvent net_event

fun p2p_step :: "p2p_action \<Rightarrow> p2p_module \<Rightarrow> p2p_module" where
  "p2p_step ActInit m = snd (wifi_p2p_init m)"
| "p2p_step (ActFind timeout_sec ret) m = snd (wifi_p2p_find timeout_sec ret m)"
| "p2p_step (ActStopFind ret) m = snd (wifi_p2p_stop_find ret m)"
| "p2p_step (ActConnect peer go_int freq ret) m = snd (wifi_p2p_connect peer go_int freq ret m)"
| "p2p_step (ActGroupAdd freq ret) m = snd (wifi_p2p_group_add freq ret m)"
| "p2p_step (ActGroupRemove ret) m = snd (wifi_p2p_group_remove ret m)"
| "p2p_step (ActEvent e) m = p2p_mgmt_event_handler e m"

definition p2p_boot :: "bool \<Rightarrow> p2p_module" where
  "p2p_boot iface =
     \<lparr>p2p_ctx = zero_ctx, p2p_find_sem = 0, p2p_connect_sem = 0, p2p_group_formed_sem = 0,
      p2p_go_neg_request_sem = 0, p2p_ap_sta_connected_sem = 0,
      user_event_cb = False, delivered = [], wifi_iface = iface, calls = []\<rparr>"

definition p2p_run :: "bool \<Rightarrow> p2p_action list \<Rightarrow> p2p_module" where
  "p2p_run iface acts = foldl (\<lambda>m a. p2p_step a m) (p2p_boot iface) acts"

text \<open>
  The steps that give the role a value other than Undetermined: a connect call that
  goes through (an interface, a peer address, the request accepted) with intent 15 or 0,
  a group-add call that goes through, and the two success notifications. Whether an
  interface exists is fixed for a run.
\<close>

fun resolves_role :: "bool \<Rightarrow> p2p_action \<Rightarrow> bool" where
  "resolves_role iface (ActConnect peer go_int freq ret) =
     (iface \<and> peer \<noteq> None \<and> ret = 0 \<and> (go_int = 15 \<or> go_int = 0))"
| "resolves_role iface (ActGroupAdd freq ret) = (iface \<and> ret = 0)"
| "resolves_role iface (ActEvent (NET_EVENT_WIFI_CONNECT_RESULT status)) = (status = 0)"
| "resolves_role iface (ActEvent (NET_EVENT_WIFI_AP_ENABLE_RESULT status)) = (status = 0)"
| "resolves_role iface _ = False"

text \<open>The steps of a run that come after its last initialisation (all, when it has none).\<close>

definition since_last_init :: "p2p_action list \<Rightarrow> p2p_action list" where
  "since_last_init acts = rev (takeWhile (\<lambda>a. a \<noteq> ActInit) (rev acts))"

section \<open>Echo statistics and sockets (udp\_utils.h, udp\_utils.c)\<close>

record udp_echo_stats =
  packets_sent :: "32 word"
  packets_received :: "32 word"
  bytes_sent :: "32 word"
  bytes_received :: "32 word"
  packets_lost :: "32 word"
  rtt_min_us :: "32 word"
  rtt_max_us :: "32 word"
  rtt_avg_us :: "32 word"
  rtt_total_us :: "64 word"

definition UINT32_MAX :: "32 word" where "UINT32_MAX = 4294967295"

definition UDP_RECV_TIMEOUT_MS :: nat where "UDP_RECV_TIMEOUT_MS = 2000"

text \<open>The statistics are reached through a pointer that may be \<^verbatim>\<open>NULL\<close> (\<open>None\<close>).\<close>

definition udp_echo_reset_stats :: "udp_echo_stats option \<Rightarrow> udp_echo_stats option" where
  "udp_echo_reset_stats stats =
     (case stats of
        None \<Rightarrow> None
      | Some s \<Rightarrow>
          Some \<lparr>packets_sent = 0, packets_received = 0, bytes_sent = 0, bytes_received = 0,
                packets_lost = 0, rtt_min_us = UINT32_MAX, rtt_max_us = 0, rtt_avg_us = 0,
                rtt_total_us = 0\<rparr>)"

text \<open>
  What a socket call gives back to the code: its return value and, when that is
  negative, \<^verbatim>\<open>errno\<close>. Both are decided by the transport layer.
\<close>

record sys_result =
  sys_ret :: int
  sys_errno :: int

definition udp_send :: "sys_result \<Rightarrow> int" where
  "udp_send sendto = (if sys_ret sendto < 0 then - sys_errno sendto else sys_ret sendto)"

definition udp_receive :: "sys_result \<Rightarrow> int" where
  "udp_receive recvfrom =
     (if sys_ret recvfrom < 0 then
        (if sys_errno recvfrom = EAGAIN \<or> sys_errno recvfrom = EWOULDBLOCK then 0
         else - sys_errno recvfrom)
      else sys_ret recvfrom)"

text \<open>
  One \<^verbatim>\<open>udp_echo_ping\<close>: the two readings of \<^verbatim>\<open>k_uptime_get\<close> (milliseconds,
  \<^verbatim>\<open>int64_t\<close>) and the results of the send and the receive. The function returns its
  return value and the content of \<^verbatim>\<open>*rtt_us\<close> afterwards, which is written on
  success only.
\<close>

record ping_env =
  t_start :: "64 word"
  ping_send :: sys_result
  ping_recv :: sys_result
  t_end :: "64 word"

definition udp_echo_ping :: "ping_env \<Rightarrow> 32 word \<Rightarrow> int \<times> 32 word" where
  "udp_echo_ping env rtt_us =
     (let ret = udp_send (ping_send env)
      in if ret < 0 then (ret, rtt_us)
         else
           (let ret = udp_receive (ping_recv env)
            in if ret \<le> 0 then (if ret = 0 then (- ETIMEDOUT, rtt_us) else (ret, rtt_us))
               else (ret, ucast ((t_end env - t_start env) * 1000))))"

section \<open>Echo client loop (udp\_utils.c)\<close>

text \<open>The statistics update in the body of the client loop, by the result of the ping.\<close>

definition client_update ::
  "nat \<Rightarrow> int \<Rightarrow> 32 word \<Rightarrow> udp_echo_stats option \<Rightarrow> udp_echo_stats option" where
  "client_update packet_size ret rtt_us stats =
     (if 0 < ret then
        (case stats of
           None \<Rightarrow> None
         | Some s \<Rightarrow>
             (let s1 = s\<lparr>packets_sent := packets_sent s + 1,
                         packets_received := packets_received s + 1,
                         bytes_sent := bytes_sent s + of_nat packet_size,
                         bytes_received := bytes_received s + of_int ret\<rparr>;
                  s2 = (if packets_received s1 = 1 \<or> rtt_us < rtt_min_us s1
                        then s1\<lparr>rtt_min_us := rtt_us\<rparr> else s1);
                  s3 = (if rtt_max_us s2 < rtt_us then s2\<lparr>rtt_max_us := rtt_us\<rparr> else s2);
                  s4 = s3\<lparr>rtt_total_us := rtt_total_us s3 + ucast rtt_us\<rparr>
              in Some (s4\<lparr>rtt_avg_us :=
                            ucast (rtt_total_us s4 div ucast (packets_received s4))\<rparr>)))
      else if ret = - ETIMEDOUT then
        (case stats of
           None \<Rightarrow> None
         | Some s \<Rightarrow>
             Some (s\<lparr>packets_sent := packets_sent s + 1,
                     packets_lost := packets_lost s + 1,
                     bytes_sent := bytes_sent s + of_nat packet_size\<rparr>))
      else stats)"

text \<open>
  The loop reads the stop flag, which another thread sets, at the head of every
  iteration. A script gives, for each iteration, the value read and what the ping meets.
  The loop can run for ever (count 0, flag never set): when the script ends before the
  loop does, the result is \<open>None\<close>. Both exits return 0 in C; the model says which one
  was taken.
\<close>

record client_env =
  stop_flag :: bool
  ping :: ping_env

datatype loop_exit = StopFlagSet | CountReached

fun client_loop ::
  "nat \<Rightarrow> 32 word \<Rightarrow> 32 word \<Rightarrow> 32 word \<Rightarrow> udp_echo_stats option \<Rightarrow> client_env list
     \<Rightarrow> (loop_exit \<times> udp_echo_stats option) option" where
  "client_loop packet_size count seq_num rtt_us stats [] = None"
| "client_loop packet_size count seq_num rtt_us stats (e # es) =
     (if stop_flag e then Some (StopFlagSet, stats)
      else if 0 < count \<and> count \<le> seq_num then Some (CountReached, stats)
      else
        (let (ret, rtt_us') = udp_echo_ping (ping e) rtt_us
         in client_loop packet_size count (seq_num + 1) rtt_us'
              (client_update packet_size ret rtt_us' stats) es))"

text \<open>
  \<open>cfg_packet_size\<close> is \<^verbatim>\<open>CONFIG_UDP_ECHO_PACKET_SIZE\<close>, set by the build
  configuration; \<open>rtt0\<close> is the content of the uninitialised local \<^verbatim>\<open>rtt_us\<close>, which
  the loop never reads before a ping has written it.
\<close>

definition udp_echo_client_run ::
  "nat \<Rightarrow> nat \<Rightarrow> 32 word \<Rightarrow> 32 word \<Rightarrow> udp_echo_stats option \<Rightarrow> client_env list
     \<Rightarrow> (loop_exit \<times> udp_echo_stats option) option" where
  "udp_echo_client_run cfg_packet_size packet_size count rtt0 stats script =
     (let packet_size = (if cfg_packet_size + 64 < packet_size then cfg_packet_size + 64
                         else packet_size)
      in client_loop packet_size count 0 rtt0 stats script)"

section \<open>Echo server loop (udp\_utils.c)\<close>

record sockaddr_in =
  sin_addr :: "32 word"
  sin_port :: "16 word"

text \<open>
  One iteration of the server: the stop flag as read at the loop head, the result of
  \<^verbatim>\<open>zsock_recvfrom\<close> with the buffer content and the sender's address it wrote, and
  the result of \<^verbatim>\<open>zsock_sendto\<close>. The loop state is the statistics and the datagrams
  handed to \<^verbatim>\<open>zsock_sendto\<close> so far, each with its destination.
\<close>

record server_env =
  srv_stop :: bool
  srv_recv :: sys_result
  srv_buffer :: "8 word list"
  srv_client_addr :: sockaddr_in
  srv_send :: sys_result

type_synonym datagram = "8 word list \<times> sockaddr_in"

definition server_iter ::
  "server_env \<Rightarrow> udp_echo_stats option \<times> datagram list \<Rightarrow> udp_echo_stats option \<times> datagram list" where
  "server_iter e st =
     (let recv_len = sys_ret (srv_recv e)
      in if recv_len < 0 then
           (if sys_errno (srv_recv e) = EAGAIN \<or> sys_errno (srv_recv e) = EWOULDBLOCK
            then st else st)
         else if recv_len = 0 then st
         else
           (let stats1 = (case fst st of
                            None \<Rightarrow> None
                          | Some s \<Rightarrow>
                              Some (s\<lparr>packets_received := packets_received s + 1,
                                      bytes_received := bytes_received s + of_int recv_len\<rparr>));
                out1 = snd st @ [(take (nat recv_len) (srv_buffer e), srv_client_addr e)];
                send_len = sys_ret (srv_send e)
            in if send_len < 0 then (stats1, out1)
               else
                 ((case stats1 of
                     None \<Rightarrow> None
                   | Some s \<Rightarrow>
                       Some (s\<lparr>packets_sent := packets_sent s + 1,
                               bytes_sent := bytes_sent s + of_int send_len\<rparr>)),
                  out1)))"

fun server_loop ::
  "udp_echo_stats option \<times> datagram list \<Rightarrow> server_env list
     \<Rightarrow> (udp_echo_stats option \<times> datagram list) option" where
  "server_loop st [] = None"
| "server_loop st (e # es) = (if srv_stop e then Some st else server_loop (server_iter e st) es)"

definition udp_echo_server_run ::
  "udp_echo_stats option \<Rightarrow> server_env list \<Rightarrow> (udp_echo_stats option \<times> datagram list) option" where
  "udp_echo_server_run stats script = server_loop (stats, []) script"

section \<open>Statistics report (udp\_utils.c)\<close>

text \<open>
  What \<^verbatim>\<open>udp_echo_print_stats\<close> logs: the five counters, the three round-trip lines
  (milliseconds and the remainder in microseconds) when a packet was received, and the
  loss line when a packet was sent. With a \<^verbatim>\<open>NULL\<close> pointer nothing is logged.
\<close>

record echo_report =
  rep_counters :: "32 word list"
  rep_rtt :: "((32 word \<times> 32 word) \<times> (32 word \<times> 32 word) \<times> (32 word \<times> 32 word)) option"
  rep_loss_pct :: "32 word option"

definition udp_echo_print_stats :: "udp_echo_stats option \<Rightarrow> echo_report option" where
  "udp_echo_print_stats stats =
     (case stats of
        None \<Rightarrow> None
      | Some s \<Rightarrow>
          Some \<lparr>rep_counters = [packets_sent s, packets_received s, packets_lost s,
                                 bytes_sent s, bytes_received s],
                rep_rtt = (if 0 < packets_received s
                           then Some ((rtt_min_us s div 1000, rtt_min_us s mod 1000),
                                      (rtt_max_us s div 1000, rtt_max_us s mod 1000),
                                      (rtt_avg_us s div 1000, rtt_avg_us s mod 1000))
                           else None),
                rep_loss_pct = (if 0 < packets_sent s
                                then Some ((packets_lost s * 100) div packets_sent s)
                                else None)\<rparr>)"

text \<open>
  A ping of the client loop failed when its result is neither a reply (positive) nor the
  timeout result: the branch of the loop body that only logs.
\<close>

definition ping_failed :: "client_env \<Rightarrow> bool" where
  "ping_failed e \<longleftrightarrow>
     (let ret = fst (udp_echo_ping (ping e) 0) in \<not> 0 < ret \<and> ret \<noteq> - ETIMEDOUT)"

section \<open>Blocking waits (wifi\_p2p\_utils.c)\<close>

text \<open>
  The dispatcher runs in its own thread, so notifications arrive while the orchestrator
  is blocked. A blocking call takes the notifications that arrive around it as an
  argument. \<^verbatim>\<open>k_sem_take\<close> with a timeout returns at once when a signal is pending;
  otherwise it sleeps while notifications are handled, wakes at the first that gives
  the semaphore, and times out when none does. The notifications left over arrive
  between the wake-up and the caller's next statement.
\<close>

fun sem_wait ::
  "(p2p_module \<Rightarrow> nat) \<Rightarrow> (nat \<Rightarrow> p2p_module \<Rightarrow> p2p_module) \<Rightarrow> net_event list \<Rightarrow> p2p_module
     \<Rightarrow> int \<times> p2p_module" where
  "sem_wait get put [] m = (fst (k_sem_take (get m)), put (snd (k_sem_take (get m))) m)"
| "sem_wait get put (e # es) m =
     (if 0 < get m then (0, deliver (e # es) (put (get m - 1) m))
      else sem_wait get put es (p2p_mgmt_event_handler e m))"

definition wifi_p2p_wait_for_group_formation :: "net_event list \<Rightarrow> p2p_module \<Rightarrow> int \<times> p2p_module" where
  "wifi_p2p_wait_for_group_formation evs m =
     (let (ret, m1) = sem_wait p2p_group_formed_sem (\<lambda>c s. s\<lparr>p2p_group_formed_sem := c\<rparr>) evs m
      in if ret = - EAGAIN then (- ETIMEDOUT, m1)
         else if state (p2p_ctx m1) = WIFI_P2P_STATE_ERROR then (- EIO, m1)
         else (0, m1))"

definition wifi_p2p_wait_for_ap_sta_connected :: "net_event list \<Rightarrow> p2p_module \<Rightarrow> int \<times> p2p_module" where
  "wifi_p2p_wait_for_ap_sta_connected evs m =
     (let (ret, m1) = sem_wait p2p_ap_sta_connected_sem
                        (\<lambda>c s. s\<lparr>p2p_ap_sta_connected_sem := c\<rparr>) evs m
      in if ret = - EAGAIN then (- ETIMEDOUT, m1) else (0, m1))"

text \<open>
  \<^verbatim>\<open>wifi_p2p_get_peers\<close>: the caller's array and counter (either pointer may be
  \<^verbatim>\<open>NULL\<close>), and the radio subsystem's answer: the request's result, the array content
  it leaves and the count it reports.
\<close>

record peers_reply =
  peers_ret :: int
  peers_written :: "wifi_p2p_device_info list"
  peers_reported :: "16 word"

definition wifi_p2p_get_peers ::
  "wifi_p2p_device_info list option \<Rightarrow> 16 word \<Rightarrow> 16 word option \<Rightarrow> peers_reply \<Rightarrow> p2p_module
     \<Rightarrow> int \<times> (wifi_p2p_device_info list option \<times> 16 word option) \<times> p2p_module" where
  "wifi_p2p_get_peers peers max_peers peer_cnt reply m =
     (if \<not> wifi_iface m then (- ENODEV, (peers, peer_cnt), m)
      else if peers = None \<or> peer_cnt = None then (- EINVAL, (peers, peer_cnt), m)
      else
        (let m1 = ext (ReqP2pPeer max_peers) m
         in if peers_ret reply \<noteq> 0
            then (peers_ret reply, (Some (peers_written reply), peer_cnt), m1)
            else (0, (Some (peers_written reply), Some (peers_reported reply)), m1)))"

section \<open>Application state (main.c)\<close>

text \<open>
  The build configuration (Kconfig), which is not part of the sources. The timeouts of
  the two semaphore waits are not among the fields: whether a wait times out is decided
  by the notifications that arrive during it.
\<close>

record app_config =
  CONFIG_P2P_TARGET_PEER_MAC :: string
  CONFIG_P2P_GO_INTENT :: "8 word"
  CONFIG_P2P_OPERATING_FREQUENCY :: "32 word"
  CONFIG_P2P_DISCOVERY_TIMEOUT :: "16 word"
  CONFIG_P2P_DISCOVERY_WAIT_MS :: nat
  CONFIG_P2P_FIND_STOP_DELAY_MS :: nat
  CONFIG_P2P_GO_NEG_REQUEST_WAIT_MS :: nat
  CONFIG_P2P_4WAY_HANDSHAKE_WAIT_MS :: nat
  CONFIG_P2P_DHCP_START_DELAY_MS :: nat
  CONFIG_WIFI_P2P_MAX_PEERS :: "16 word"

text \<open>What the application asks of the kernel and of the network helpers, in order.\<close>

datatype sys_call =
    KSleep nat
  | LedBlinkSchedule
  | ConfigureGoIp
  | StartDhcpServer
  | NetPrintStatus
  | SetDhcpBoundCb
  | RegisterDhcpCallback
  | Dhcpv4Start
  | ServerThreadCreate
  | SocketClose int
  | PrintStats "echo_report option"
  | P2pPrintStatus
  | UpdateLeds

text \<open>
  The file-scope state of main.c, with the state of wifi\_p2p\_utils.c inside it.
  \<open>connect_work_submitted\<close> records \<^verbatim>\<open>k_work_submit(&p2p_connect_work)\<close>: the work
  queue then runs \<^verbatim>\<open>p2p_connect_handler\<close>.
\<close>

record app_state =
  p2p :: p2p_module
  discovered_peers :: "wifi_p2p_device_info list"
  discovered_peer_count :: "16 word"
  p2p_pairing_in_progress :: bool
  connect_work_submitted :: bool
  dhcp_bound_handled :: bool
  dhcp_bound_iface :: bool
  udp_socket :: int
  udp_echo_stop_flag :: bool
  echo_stats :: udp_echo_stats
  app_calls :: "sys_call list"

definition app_call :: "sys_call \<Rightarrow> app_state \<Rightarrow> app_state" where
  "app_call c a = a\<lparr>app_calls := app_calls a @ [c]\<rparr>"

subsection \<open>Stopping the echo session\<close>

text \<open>
  \<^verbatim>\<open>udp_client_cleanup\<close> closes a socket that is not negative. The echo thread runs
  beside this code and is not part of the model: the statistics printed are those in the
  state. The sleep of \<^verbatim>\<open>stop_udp_echo\<close> is recorded with its duration; the function
  runs inside the user callback, on the dispatcher's thread, so no notification is
  handled during it.
\<close>

definition udp_client_cleanup :: "int \<Rightarrow> app_state \<Rightarrow> app_state" where
  "udp_client_cleanup sock a = (if 0 \<le> sock then app_call (SocketClose sock) a else a)"

definition stop_udp_echo :: "app_state \<Rightarrow> app_state" where
  "stop_udp_echo a =
     (let a1 = a\<lparr>udp_echo_stop_flag := True\<rparr>;
          a2 = app_call (KSleep 500) a1;
          a3 = (if 0 \<le> udp_socket a2
                then (udp_client_cleanup (udp_socket a2) a2)\<lparr>udp_socket := - 1\<rparr>
                else a2)
      in app_call (PrintStats (udp_echo_print_stats (Some (echo_stats a3)))) a3)"

subsection \<open>The user callback\<close>

definition update_leds :: "app_state \<Rightarrow> app_state" where
  "update_leds a = app_call UpdateLeds a"

definition p2p_event_handler :: "wifi_p2p_event \<Rightarrow> app_state \<Rightarrow> app_state" where
  "p2p_event_handler event a =
     update_leds
       (case event of
          WIFI_P2P_EVENT_PEER_LEFT \<Rightarrow> stop_udp_echo a
        | WIFI_P2P_EVENT_DISCONNECTED \<Rightarrow> stop_udp_echo a
        | _ \<Rightarrow> a)"

text \<open>
  A call into wifi\_p2p\_utils.c from the application: the module function runs on the
  module state, and the notifications it passed to the registered callback meanwhile
  are handled by \<^verbatim>\<open>p2p_event_handler\<close>, which touches the application state only.
\<close>

definition with_p2p :: "(p2p_module \<Rightarrow> 'r \<times> p2p_module) \<Rightarrow> app_state \<Rightarrow> 'r \<times> app_state" where
  "with_p2p f a =
     (let (r, m') = f (p2p a);
          fresh = drop (length (delivered (p2p a))) (delivered m')
      in (r, foldl (\<lambda>s ev. p2p_event_handler ev s) (a\<lparr>p2p := m'\<rparr>) fresh))"

definition k_sleep :: "nat \<Rightarrow> net_event list \<Rightarrow> app_state \<Rightarrow> app_state" where
  "k_sleep ms evs a = snd (with_p2p (\<lambda>m. ((), deliver evs m)) (app_call (KSleep ms) a))"

subsection \<open>Starting the echo server\<close>

definition start_udp_echo_server :: "int \<times> int \<Rightarrow> app_state \<Rightarrow> app_state" where
  "start_udp_echo_server server_init a =
     (let (ret, sock) = server_init
      in if ret < 0 then a
         else
           (let a1 = a\<lparr>udp_socket := sock\<rparr>;
                a2 = (case udp_echo_reset_stats (Some (echo_stats a1)) of
                        None \<Rightarrow> a1
                      | Some s \<Rightarrow> a1\<lparr>echo_stats := s\<rparr>);
                a3 = a2\<lparr>udp_echo_stop_flag := False\<rparr>
            in app_call ServerThreadCreate a3))"

definition setup_go_network :: "int \<times> int \<Rightarrow> app_state \<Rightarrow> app_state" where
  "setup_go_network server_init a =
     start_udp_echo_server server_init
       (app_call NetPrintStatus (app_call StartDhcpServer (app_call ConfigureGoIp a)))"

subsection \<open>Peer selection\<close>

definition INT_MIN :: int where "INT_MIN = - 2147483648"

text \<open>The selection loop over the discovered peers, from index \<open>i\<close>.\<close>

fun best_rssi_loop :: "wifi_p2p_device_info list \<Rightarrow> nat \<Rightarrow> int \<Rightarrow> int \<Rightarrow> int" where
  "best_rssi_loop [] i best_idx best_rssi = best_idx"
| "best_rssi_loop (p # ps) i best_idx best_rssi =
     (if best_rssi < rssi p then best_rssi_loop ps (i + 1) (int i) (rssi p)
      else best_rssi_loop ps (i + 1) best_idx best_rssi)"

definition select_target_peer ::
  "app_config \<Rightarrow> scanner \<Rightarrow> wifi_p2p_device_info list \<Rightarrow> 16 word \<Rightarrow> nat option" where
  "select_target_peer cfg sscanf_hex peers n =
     (if CONFIG_P2P_TARGET_PEER_MAC cfg = [] then
        (let best_idx = best_rssi_loop (take (unat n) peers) 0 (- 1) INT_MIN
         in if 0 \<le> best_idx then Some (nat best_idx) else None)
      else wifi_p2p_find_peer_by_mac sscanf_hex (Some peers) n
             (Some (CONFIG_P2P_TARGET_PEER_MAC cfg)))"

subsection \<open>The connect sequence\<close>

text \<open>What the environment decides during one run of \<^verbatim>\<open>p2p_connect_handler\<close>.\<close>

record connect_env =
  stop_find_ret :: int
  stop_events :: "net_event list"
  neg_events :: "net_event list"
  connect_ret :: int
  formation_events :: "net_event list"
  sta_events :: "net_event list"
  handshake_events :: "net_event list"
  server_init :: "int \<times> int"
  dhcp_delay_events :: "net_event list"

definition connect_as_go :: "app_config \<Rightarrow> connect_env \<Rightarrow> app_state \<Rightarrow> app_state" where
  "connect_as_go cfg env a =
     (let (ret, a1) = with_p2p (wifi_p2p_wait_for_ap_sta_connected (sta_events env)) a;
          a2 = k_sleep (CONFIG_P2P_4WAY_HANDSHAKE_WAIT_MS cfg) (handshake_events env) a1
      in setup_go_network (server_init env) a2)"

definition connect_as_cli :: "app_config \<Rightarrow> connect_env \<Rightarrow> app_state \<Rightarrow> app_state" where
  "connect_as_cli cfg env a =
     (let iface = wifi_iface (p2p a);
          a1 = (if 0 < CONFIG_P2P_DHCP_START_DELAY_MS cfg
                then k_sleep (CONFIG_P2P_DHCP_START_DELAY_MS cfg) (dhcp_delay_events env) a
                else a);
          a2 = a1\<lparr>dhcp_bound_handled := False, dhcp_bound_iface := iface\<rparr>
      in app_call Dhcpv4Start (app_call RegisterDhcpCallback (app_call SetDhcpBoundCb a2)))"

definition p2p_connect_handler ::
  "app_config \<Rightarrow> scanner \<Rightarrow> connect_env \<Rightarrow> app_state \<Rightarrow> app_state" where
  "p2p_connect_handler cfg sscanf_hex env a0 =
     (let a = a0\<lparr>connect_work_submitted := False\<rparr>
      in if discovered_peer_count a = 0 then a\<lparr>p2p_pairing_in_progress := False\<rparr>
         else
           (let a1 = snd (with_p2p (wifi_p2p_stop_find (stop_find_ret env)) a);
                a2 = k_sleep (CONFIG_P2P_FIND_STOP_DELAY_MS cfg) (stop_events env) a1
            in case select_target_peer cfg sscanf_hex (discovered_peers a2)
                      (discovered_peer_count a2) of
                 None \<Rightarrow> a2\<lparr>p2p_pairing_in_progress := False\<rparr>
               | Some idx \<Rightarrow>
                   (let peer = mac (discovered_peers a2 ! idx);
                        go_int = CONFIG_P2P_GO_INTENT cfg;
                        freq = CONFIG_P2P_OPERATING_FREQUENCY cfg;
                        a3 = (if go_int = 0
                              then k_sleep (CONFIG_P2P_GO_NEG_REQUEST_WAIT_MS cfg) (neg_events env) a2
                              else a2);
                        (ret, a4) = with_p2p (wifi_p2p_connect (Some peer) go_int freq
                                                (connect_ret env)) a3
                    in if ret < 0 then a4\<lparr>p2p_pairing_in_progress := False\<rparr>
                       else
                         (let (ret, a5) = with_p2p (wifi_p2p_wait_for_group_formation
                                                      (formation_events env)) a4
                          in if ret < 0 then a5\<lparr>p2p_pairing_in_progress := False\<rparr>
                             else
                               (let a6 = (if role (p2p_ctx (p2p a5)) = WIFI_P2P_ROLE_GO
                                          then connect_as_go cfg env a5
                                          else if role (p2p_ctx (p2p a5)) = WIFI_P2P_ROLE_CLI
                                          then connect_as_cli cfg env a5
                                          else a5);
                                    a7 = update_leds (app_call P2pPrintStatus a6)
                                in a7\<lparr>p2p_pairing_in_progress := False\<rparr>)))))"

subsection \<open>The start sequence\<close>

record start_env =
  find_ret :: int
  discovery_events :: "net_event list"
  peers_reply :: peers_reply

definition p2p_start_handler :: "app_config \<Rightarrow> start_env \<Rightarrow> app_state \<Rightarrow> app_state" where
  "p2p_start_handler cfg env a =
     (if p2p_pairing_in_progress a then a
      else
        (let a1 = a\<lparr>p2p_pairing_in_progress := True, discovered_peer_count := 0\<rparr>;
             a2 = app_call LedBlinkSchedule a1;
             (ret, a3) = with_p2p (wifi_p2p_find (CONFIG_P2P_DISCOVERY_TIMEOUT cfg)
                                     (find_ret env)) a2
         in if ret < 0 then a3\<lparr>p2p_pairing_in_progress := False\<rparr>
            else
              (let a4 = k_sleep (CONFIG_P2P_DISCOVERY_WAIT_MS cfg) (discovery_events env) a3;
                   ((ret, (peers, cnt)), a5) =
                      with_p2p (\<lambda>m. case wifi_p2p_get_peers (Some (discovered_peers a4))
                                            (CONFIG_WIFI_P2P_MAX_PEERS cfg)
                                            (Some (discovered_peer_count a4)) (peers_reply env) m of
                                       (ret, out, m') \<Rightarrow> ((ret, out), m')) a4;
                   a6 = a5\<lparr>discovered_peers :=
                             (case peers of Some ps \<Rightarrow> ps | None \<Rightarrow> discovered_peers a5),
                           discovered_peer_count :=
                             (case cnt of Some c \<Rightarrow> c | None \<Rightarrow> discovered_peer_count a5)\<rparr>
               in if 0 < discovered_peer_count a6 \<or>
                     state (p2p_ctx (p2p a6)) = WIFI_P2P_STATE_FOUND
                  then a6\<lparr>connect_work_submitted := True\<rparr>
                  else a6\<lparr>p2p_pairing_in_progress := False\<rparr>)))"

text \<open>
  A pairing attempt as the work queue runs it: the start sequence, then the connect
  sequence when the connect work was submitted.
\<close>

definition pairing_attempt ::
  "app_config \<Rightarrow> scanner \<Rightarrow> start_env \<Rightarrow> connect_env \<Rightarrow> app_state \<Rightarrow> app_state" where
  "pairing_attempt cfg sscanf_hex senv cenv a =
     (let a1 = p2p_start_handler cfg senv a
      in if connect_work_submitted a1 then p2p_connect_handler cfg sscanf_hex cenv a1 else a1)"

subsection \<open>Observations on the call sequences\<close>

definition is_connect_req :: "ext_call \<Rightarrow> bool" where
  "is_connect_req c = (case c of ReqP2pConnect _ _ _ \<Rightarrow> True | _ \<Rightarrow> False)"

text \<open>The time slept, in milliseconds, before the first socket close of a call sequence.\<close>

fun close_delay :: "sys_call list \<Rightarrow> nat option" where
  "close_delay [] = None"
| "close_delay (KSleep ms # cs) = map_option (\<lambda>d. ms + d) (close_delay cs)"
| "close_delay (SocketClose s # cs) = Some 0"
| "close_delay (c # cs) = close_delay cs"

section \<open>Sample inputs\<close>

definition sample_module :: "wifi_p2p_state \<Rightarrow> p2p_module" where
  "sample_module st =
     \<lparr>p2p_ctx = zero_ctx\<lparr>state := st, peer_mac := [2, 0, 0, 0, 0, 1]\<rparr>,
      p2p_find_sem = 0, p2p_connect_sem = 0, p2p_group_formed_sem = 0,
      p2p_go_neg_request_sem = 0, p2p_ap_sta_connected_sem = 0,
      user_event_cb = True, delivered = [], wifi_iface = True, calls = []\<rparr>"

definition sample_go_module :: p2p_module where
  "sample_go_module =
     ctx_upd (\<lambda>c. c\<lparr>connected := True\<rparr>) (sample_module WIFI_P2P_STATE_GROUP_FORMED)"

text \<open>
  Pings for concrete runs: a reply after a number of milliseconds, a timeout, and a send
  that fails for lack of memory (errno 12).
\<close>

definition reply_after :: "64 word \<Rightarrow> client_env" where
  "reply_after ms =
     \<lparr>stop_flag = False,
      ping = \<lparr>t_start = 1000, ping_send = \<lparr>sys_ret = 64, sys_errno = 0\<rparr>,
              ping_recv = \<lparr>sys_ret = 64, sys_errno = 0\<rparr>, t_end = 1000 + ms\<rparr>\<rparr>"

definition recv_timeout :: client_env where
  "recv_timeout =
     \<lparr>stop_flag = False,
      ping = \<lparr>t_start = 1000, ping_send = \<lparr>sys_ret = 64, sys_errno = 0\<rparr>,
              ping_recv = \<lparr>sys_ret = - 1, sys_errno = EAGAIN\<rparr>, t_end = 3000\<rparr>\<rparr>"

definition send_failure :: client_env where
  "send_failure =
     \<lparr>stop_flag = False,
      ping = \<lparr>t_start = 1000, ping_send = \<lparr>sys_ret = - 1, sys_errno = 12\<rparr>,
              ping_recv = \<lparr>sys_ret = 64, sys_errno = 0\<rparr>, t_end = 1000\<rparr>\<rparr>"

definition stale_stats :: udp_echo_stats where
  "stale_stats =
     \<lparr>packets_sent = 7, packets_received = 7, bytes_sent = 7, bytes_received = 7,
      packets_lost = 7, rtt_min_us = 7, rtt_max_us = 7, rtt_avg_us = 7, rtt_total_us = 7\<rparr>"

definition fresh_stats :: "udp_echo_stats option" where
  "fresh_stats = udp_echo_reset_stats (Some stale_stats)"

definition stats_3_replies :: udp_echo_stats where
  "stats_3_replies =
     \<lparr>packets_sent = 3, packets_received = 3, bytes_sent = 192, bytes_received = 192,
      packets_lost = 0, rtt_min_us = 5000, rtt_max_us = 20000, rtt_avg_us = 11666,
      rtt_total_us = 35000\<rparr>"

definition stats_2_timeouts :: udp_echo_stats where
  "stats_2_timeouts =
     \<lparr>packets_sent = 5, packets_received = 3, bytes_sent = 320, bytes_received = 192,
      packets_lost = 2, rtt_min_us = 5000, rtt_max_us = 20000, rtt_avg_us = 11666,
      rtt_total_us = 35000\<rparr>"

text \<open>Server iterations for concrete runs.\<close>

definition srv_timeout :: server_env where
  "srv_timeout =
     \<lparr>srv_stop = False, srv_recv = \<lparr>sys_ret = - 1, sys_errno = EAGAIN\<rparr>, srv_buffer = [],
      srv_client_addr = \<lparr>sin_addr = 0, sin_port = 0\<rparr>,
      srv_send = \<lparr>sys_ret = 0, sys_errno = 0\<rparr>\<rparr>"

definition srv_data :: "sys_result \<Rightarrow> server_env" where
  "srv_data sent =
     \<lparr>srv_stop = False, srv_recv = \<lparr>sys_ret = 3, sys_errno = 0\<rparr>, srv_buffer = [83, 69, 81, 0, 0],
      srv_client_addr = \<lparr>sin_addr = 3232258058, sin_port = 5001\<rparr>, srv_send = sent\<rparr>"

definition srv_halt :: server_env where
  "srv_halt =
     \<lparr>srv_stop = True, srv_recv = \<lparr>sys_ret = 0, sys_errno = 0\<rparr>, srv_buffer = [],
      srv_client_addr = \<lparr>sin_addr = 0, sin_port = 0\<rparr>,
      srv_send = \<lparr>sys_ret = 0, sys_errno = 0\<rparr>\<rparr>"

definition zero_stats :: udp_echo_stats where
  "zero_stats =
     \<lparr>packets_sent = 0, packets_received = 0, bytes_sent = 0, bytes_received = 0,
      packets_lost = 0, rtt_min_us = UINT32_MAX, rtt_max_us = 0, rtt_avg_us = 0,
      rtt_total_us = 0\<rparr>"

text \<open>Peers, configurations and application states for concrete runs.\<close>

definition three_peers :: "wifi_p2p_device_info list" where
  "three_peers =
     [\<lparr>mac = [2, 0, 0, 0, 0, 1], device_name = ''peer-a'', rssi = - 70\<rparr>,
      \<lparr>mac = [2, 0, 0, 0, 0, 2], device_name = ''peer-b'', rssi = - 40\<rparr>,
      \<lparr>mac = [2, 0, 0, 0, 0, 3], device_name = ''peer-c'', rssi = - 55\<rparr>]"

definition tied_peers :: "wifi_p2p_device_info list" where
  "tied_peers =
     [\<lparr>mac = [2, 0, 0, 0, 0, 1], device_name = ''peer-a'', rssi = - 40\<rparr>,
      \<lparr>mac = [2, 0, 0, 0, 0, 2], device_name = ''peer-b'', rssi = - 40\<rparr>]"

definition auto_cfg :: app_config where
  "auto_cfg =
     \<lparr>CONFIG_P2P_TARGET_PEER_MAC = [], CONFIG_P2P_GO_INTENT = 15,
      CONFIG_P2P_OPERATING_FREQUENCY = 2437, CONFIG_P2P_DISCOVERY_TIMEOUT = 10,
      CONFIG_P2P_DISCOVERY_WAIT_MS = 5000, CONFIG_P2P_FIND_STOP_DELAY_MS = 500,
      CONFIG_P2P_GO_NEG_REQUEST_WAIT_MS = 3000, CONFIG_P2P_4WAY_HANDSHAKE_WAIT_MS = 3000,
      CONFIG_P2P_DHCP_START_DELAY_MS = 0, CONFIG_WIFI_P2P_MAX_PEERS = 8\<rparr>"

definition filter_cfg :: app_config where
  "filter_cfg = auto_cfg\<lparr>CONFIG_P2P_TARGET_PEER_MAC := ''02:00:00:00:00:09''\<rparr>"

definition idle_app :: app_state where
  "idle_app =
     \<lparr>p2p = sample_module WIFI_P2P_STATE_IDLE, discovered_peers = [],
      discovered_peer_count = 0, p2p_pairing_in_progress = False,
      connect_work_submitted = False, dhcp_bound_handled = False, dhcp_bound_iface = False,
      udp_socket = - 1, udp_echo_stop_flag = False, echo_stats = zero_stats, app_calls = []\<rparr>"

definition found_app :: app_state where
  "found_app = idle_app\<lparr>discovered_peers := three_peers, discovered_peer_count := 3,
                         p2p_pairing_in_progress := True, connect_work_submitted := True\<rparr>"

definition echo_app :: app_state where
  "echo_app = idle_app\<lparr>udp_socket := 3\<rparr>"

definition quiet_start :: start_env where
  "quiet_start =
     \<lparr>find_ret = 0, discovery_events = [],
      peers_reply = \<lparr>peers_ret = 0, peers_written = [], peers_reported = 0\<rparr>\<rparr>"

definition busy_start :: start_env where
  "busy_start =
     \<lparr>find_ret = 0,
      discovery_events = [NET_EVENT_WIFI_P2P_DEVICE_FOUND (Some (three_peers ! 1))],
      peers_reply = \<lparr>peers_ret = 0, peers_written = three_peers, peers_reported = 3\<rparr>\<rparr>"

definition go_connect :: connect_env where
  "go_connect =
     \<lparr>stop_find_ret = 0, stop_events = [], neg_events = [], connect_ret = 0,
      formation_events = [NET_EVENT_WIFI_AP_ENABLE_RESULT 0],
      sta_events = [NET_EVENT_WIFI_AP_STA_CONNECTED [2, 0, 0, 0, 0, 2]],
      handshake_events = [NET_EVENT_WIFI_CONNECT_RESULT 0], server_init = (0, 3),
      dhcp_delay_events = []\<rparr>"

definition quiet_connect :: connect_env where
  "quiet_connect =
     \<lparr>stop_find_ret = 0, stop_events = [], neg_events = [], connect_ret = 0,
      formation_events = [], sta_events = [], handshake_events = [], server_init = (0, 3),
      dhcp_delay_events = []\<rparr>"

section \<open>Dispatcher properties\<close>

lemma k_sem_give_pos: "0 < k_sem_give c"
  by (simp add: k_sem_give_def K_SEM_LIMIT_def)

text \<open>
  C1. A connect-result notification with a failure status, delivered while the state is
  Connecting, leaves the whole module state as it was: no context field changes, no
  semaphore is given and the user callback is not called. In any other state the handler
  sets the state to Error and changes no other context field, emits
  \<^verbatim>\<open>WIFI_P2P_EVENT_CONNECT_FAILED\<close> (through \<^verbatim>\<open>notify_user_event\<close>, which calls the
  user callback when one is registered), and gives both the connect and the group-formed
  semaphore, so that a take on either succeeds.
\<close>

theorem connect_result_failure:
  "status \<noteq> 0 \<Longrightarrow>
     (state (p2p_ctx m) = WIFI_P2P_STATE_CONNECTING \<longrightarrow> handle_p2p_connect_result status m = m) \<and>
     (state (p2p_ctx m) \<noteq> WIFI_P2P_STATE_CONNECTING \<longrightarrow>
        p2p_ctx (handle_p2p_connect_result status m) = (p2p_ctx m)\<lparr>state := WIFI_P2P_STATE_ERROR\<rparr> \<and>
        delivered (handle_p2p_connect_result status m) =
          delivered m @ (if user_event_cb m then [WIFI_P2P_EVENT_CONNECT_FAILED] else []) \<and>
        p2p_connect_sem (handle_p2p_connect_result status m) = k_sem_give (p2p_connect_sem m) \<and>
        p2p_group_formed_sem (handle_p2p_connect_result status m) =
          k_sem_give (p2p_group_formed_sem m) \<and>
        fst (k_sem_take (p2p_connect_sem (handle_p2p_connect_result status m))) = 0 \<and>
        fst (k_sem_take (p2p_group_formed_sem (handle_p2p_connect_result status m))) = 0)"
  by (simp add: handle_p2p_connect_result_def ctx_upd_def notify_user_event_def
      k_sem_take_def k_sem_give_pos Let_def)

theorem connect_result_failure_witness:
  "handle_p2p_connect_result (- 1) (sample_module WIFI_P2P_STATE_CONNECTING)
     = sample_module WIFI_P2P_STATE_CONNECTING \<and>
   state (p2p_ctx (handle_p2p_connect_result (- 1) (sample_module WIFI_P2P_STATE_FOUND)))
     = WIFI_P2P_STATE_ERROR \<and>
   delivered (handle_p2p_connect_result (- 1) (sample_module WIFI_P2P_STATE_FOUND))
     = [WIFI_P2P_EVENT_CONNECT_FAILED] \<and>
   p2p_connect_sem (handle_p2p_connect_result (- 1) (sample_module WIFI_P2P_STATE_FOUND)) = 1 \<and>
   p2p_group_formed_sem (handle_p2p_connect_result (- 1) (sample_module WIFI_P2P_STATE_FOUND)) = 1"
  using connect_result_failure [of "- 1" "sample_module WIFI_P2P_STATE_CONNECTING"]
        connect_result_failure [of "- 1" "sample_module WIFI_P2P_STATE_FOUND"]
  by (simp add: sample_module_def zero_ctx_def k_sem_give_def K_SEM_LIMIT_def)

text \<open>
  C9. A station-disconnected notification whose address equals the tracked peer address
  clears the connected flag, zeroes the peer address, changes no other context field and
  emits \<^verbatim>\<open>WIFI_P2P_EVENT_PEER_LEFT\<close> (through \<^verbatim>\<open>notify_user_event\<close>, which calls the
  user callback when one is registered); with a different address the whole module state
  stays as it was: no context field changes and nothing is emitted.
\<close>

theorem sta_disconnected_frame:
  "(memcmp_mac (peer_mac (p2p_ctx m)) sta_mac \<longrightarrow>
      p2p_ctx (handle_ap_sta_disconnected sta_mac m)
        = (p2p_ctx m)\<lparr>connected := False, peer_mac := replicate 6 0\<rparr> \<and>
      delivered (handle_ap_sta_disconnected sta_mac m)
        = delivered m @ (if user_event_cb m then [WIFI_P2P_EVENT_PEER_LEFT] else [])) \<and>
   (\<not> memcmp_mac (peer_mac (p2p_ctx m)) sta_mac \<longrightarrow> handle_ap_sta_disconnected sta_mac m = m)"
  by (simp add: handle_ap_sta_disconnected_def ctx_upd_def notify_user_event_def
      zero_mac_def WIFI_MAC_ADDR_LEN_def)

theorem sta_disconnected_frame_witness:
  "connected (p2p_ctx (handle_ap_sta_disconnected [2, 0, 0, 0, 0, 1] sample_go_module)) = False \<and>
   peer_mac (p2p_ctx (handle_ap_sta_disconnected [2, 0, 0, 0, 0, 1] sample_go_module))
     = [0, 0, 0, 0, 0, 0] \<and>
   delivered (handle_ap_sta_disconnected [2, 0, 0, 0, 0, 1] sample_go_module)
     = [WIFI_P2P_EVENT_PEER_LEFT] \<and>
   handle_ap_sta_disconnected [2, 0, 0, 0, 0, 7] sample_go_module = sample_go_module"
proof -
  have pm: "peer_mac (p2p_ctx sample_go_module) = [2, 0, 0, 0, 0, 1]"
    and cb: "user_event_cb sample_go_module"
    and dl: "delivered sample_go_module = []"
    by (simp_all add: sample_go_module_def sample_module_def ctx_upd_def)
  have eq: "memcmp_mac (peer_mac (p2p_ctx sample_go_module)) [2, 0, 0, 0, 0, 1]"
    by (simp add: pm memcmp_mac_def)
  have ne: "\<not> memcmp_mac (peer_mac (p2p_ctx sample_go_module)) [2, 0, 0, 0, 0, 7]"
    by (simp add: pm memcmp_mac_def WIFI_MAC_ADDR_LEN_def)
  have z: "replicate 6 (0::8 word) = [0, 0, 0, 0, 0, 0]"
    by (simp add: numeral_eq_Suc)
  from sta_disconnected_frame [of sample_go_module "[2, 0, 0, 0, 0, 1]"] eq cb dl z
  have hit: "p2p_ctx (handle_ap_sta_disconnected [2, 0, 0, 0, 0, 1] sample_go_module)
        = (p2p_ctx sample_go_module)\<lparr>connected := False, peer_mac := [0, 0, 0, 0, 0, 0]\<rparr>"
      "delivered (handle_ap_sta_disconnected [2, 0, 0, 0, 0, 1] sample_go_module)
        = [WIFI_P2P_EVENT_PEER_LEFT]"
    by simp_all
  from sta_disconnected_frame [of sample_go_module "[2, 0, 0, 0, 0, 7]"] ne
  have miss: "handle_ap_sta_disconnected [2, 0, 0, 0, 0, 7] sample_go_module = sample_go_module"
    by blast
  show ?thesis using hit miss by simp
qed

section \<open>Peer lookup properties\<close>

text \<open>
  C10. With a non-empty peer array and a non-zero count, an empty filter string returns
  the entry at index 0, whatever the RSSI values (and whatever the scanner). A
  \<^verbatim>\<open>NULL\<close> array, a zero count or a \<^verbatim>\<open>NULL\<close> filter returns no peer.
\<close>

theorem find_peer_empty_filter:
  "(ps \<noteq> [] \<and> n \<noteq> 0 \<longrightarrow>
      wifi_p2p_find_peer_by_mac sc (Some ps) n (Some []) = Some 0 \<and> 0 < length ps) \<and>
   wifi_p2p_find_peer_by_mac sc None n flt = None \<and>
   wifi_p2p_find_peer_by_mac sc peers 0 flt = None \<and>
   wifi_p2p_find_peer_by_mac sc peers n None = None"
  by (simp add: wifi_p2p_find_peer_by_mac_def split: option.splits)

theorem find_peer_empty_filter_witness:
  "wifi_p2p_find_peer_by_mac sscanf_mac
     (Some [\<lparr>mac = [2, 0, 0, 0, 0, 1], device_name = ''a'', rssi = - 70\<rparr>,
            \<lparr>mac = [2, 0, 0, 0, 0, 2], device_name = ''b'', rssi = - 40\<rparr>]) 2 (Some [])
     = Some 0"
  using find_peer_empty_filter [of
      "[\<lparr>mac = [2, 0, 0, 0, 0, 1], device_name = ''a'', rssi = - 70\<rparr>,
        \<lparr>mac = [2, 0, 0, 0, 0, 2], device_name = ''b'', rssi = - 40\<rparr>]" 2 sscanf_mac]
  by simp

section \<open>Role resolution\<close>

lemma role_ctx_upd [simp]: "p2p_ctx (ctx_upd f m) = f (p2p_ctx m)"
  by (simp add: ctx_upd_def)
lemma role_ext [simp]: "p2p_ctx (ext c m) = p2p_ctx m"
  by (simp add: ext_def)
lemma ctx_notify [simp]: "p2p_ctx (notify_user_event e m) = p2p_ctx m"
  by (simp add: notify_user_event_def)
lemma ctx_bring_up [simp]: "p2p_ctx (iface_bring_up m) = p2p_ctx m"
  by (simp add: iface_bring_up_def)

lemma iface_kept [simp]:
  "wifi_iface (ctx_upd f m) = wifi_iface m"
  "wifi_iface (ext c m) = wifi_iface m"
  "wifi_iface (notify_user_event ev m) = wifi_iface m"
  "wifi_iface (iface_bring_up m) = wifi_iface m"
  by (simp_all add: ctx_upd_def ext_def notify_user_event_def iface_bring_up_def)

lemma handler_keeps_iface: "wifi_iface (p2p_mgmt_event_handler e m) = wifi_iface m"
  by (cases e)
     (simp_all add: handle_p2p_device_found_def handle_p2p_connect_result_def
        handle_ap_enable_result_def handle_ap_sta_connected_def
        handle_ap_sta_disconnected_def Let_def split: option.splits)

lemma step_keeps_iface: "wifi_iface (p2p_step a m) = wifi_iface m"
  by (cases a)
     (simp_all add: handler_keeps_iface wifi_p2p_init_def wifi_p2p_find_def
        wifi_p2p_stop_find_def wifi_p2p_connect_def wifi_p2p_group_add_def
        wifi_p2p_group_remove_def Let_def split: option.splits)

lemma run_iface: "wifi_iface (p2p_run iface acts) = iface"
  by (induction acts rule: rev_induct)
     (simp_all add: p2p_run_def p2p_boot_def step_keeps_iface)

lemma init_resets_role:
  "role (p2p_ctx (p2p_step ActInit m)) = WIFI_P2P_ROLE_UNDETERMINED"
  by (simp add: wifi_p2p_init_def Let_def)

lemma event_role_iff:
  "role (p2p_ctx (p2p_mgmt_event_handler e m)) = WIFI_P2P_ROLE_UNDETERMINED \<longleftrightarrow>
     role (p2p_ctx m) = WIFI_P2P_ROLE_UNDETERMINED \<and> \<not> resolves_role iface (ActEvent e)"
  by (cases e)
     (simp_all add: handle_p2p_device_found_def handle_p2p_connect_result_def
        handle_ap_enable_result_def handle_ap_sta_connected_def
        handle_ap_sta_disconnected_def Let_def split: option.splits)

lemma step_role_iff:
  assumes "a \<noteq> ActInit"
  shows "role (p2p_ctx (p2p_step a m)) = WIFI_P2P_ROLE_UNDETERMINED \<longleftrightarrow>
     role (p2p_ctx m) = WIFI_P2P_ROLE_UNDETERMINED \<and> \<not> resolves_role (wifi_iface m) a"
proof (cases a)
  case (ActEvent e)
  then show ?thesis by (simp add: event_role_iff [of e m "wifi_iface m"])
next
  case ActInit
  with assms show ?thesis by simp
qed (auto simp: wifi_p2p_find_def wifi_p2p_stop_find_def wifi_p2p_connect_def
        wifi_p2p_group_add_def wifi_p2p_group_remove_def Let_def split: option.splits)

lemma since_last_init_snoc:
  "since_last_init (acts @ [a]) = (if a = ActInit then [] else since_last_init acts @ [a])"
  by (simp add: since_last_init_def)

lemma since_last_init_after:
  "set (since_last_init (pre @ ActInit # post)) \<subseteq> set post"
proof
  fix x
  assume "x \<in> set (since_last_init (pre @ ActInit # post))"
  then have x: "x \<in> set (takeWhile (\<lambda>a. a \<noteq> ActInit) (rev post @ ActInit # rev pre))"
    by (simp add: since_last_init_def)
  show "x \<in> set post"
  proof (cases "\<forall>y\<in>set (rev post). y \<noteq> ActInit")
    case True
    then have "takeWhile (\<lambda>a. a \<noteq> ActInit) (rev post @ ActInit # rev pre) = rev post"
      by (simp add: takeWhile_append)
    with x show ?thesis by simp
  next
    case False
    then have "takeWhile (\<lambda>a. a \<noteq> ActInit) (rev post @ ActInit # rev pre)
        = takeWhile (\<lambda>a. a \<noteq> ActInit) (rev post)"
      by (auto simp: takeWhile_append)
    with x have "x \<in> set (rev post)" by (auto dest: set_takeWhileD)
    then show ?thesis by simp
  qed
qed

lemma run_role_iff:
  "role (p2p_ctx (p2p_run iface acts)) = WIFI_P2P_ROLE_UNDETERMINED \<longleftrightarrow>
     (\<forall>a\<in>set (since_last_init acts). \<not> resolves_role iface a)"
proof (induction acts rule: rev_induct)
  case Nil
  show ?case by (simp add: p2p_run_def p2p_boot_def zero_ctx_def since_last_init_def)
next
  case (snoc a acts)
  have run: "p2p_run iface (acts @ [a]) = p2p_step a (p2p_run iface acts)"
    by (simp add: p2p_run_def)
  show ?case
  proof (cases "a = ActInit")
    case True
    with run have "p2p_run iface (acts @ [a]) = p2p_step ActInit (p2p_run iface acts)"
      by simp
    then have "role (p2p_ctx (p2p_run iface (acts @ [a]))) = WIFI_P2P_ROLE_UNDETERMINED"
      by (simp only: init_resets_role)
    moreover from True have "since_last_init (acts @ [a]) = []"
      by (simp add: since_last_init_snoc)
    ultimately show ?thesis by simp
  next
    case False
    from step_role_iff [OF False, of "p2p_run iface acts"] snoc.IH False
    show ?thesis by (auto simp: run run_iface since_last_init_snoc)
  qed
qed

lemma handler_role_change:
  "role (p2p_ctx (p2p_mgmt_event_handler e m)) \<noteq> role (p2p_ctx m) \<Longrightarrow>
     state (p2p_ctx (p2p_mgmt_event_handler e m)) = WIFI_P2P_STATE_CONNECTED \<or>
     state (p2p_ctx (p2p_mgmt_event_handler e m)) = WIFI_P2P_STATE_GROUP_FORMED"
  by (cases e)
     (auto simp: handle_p2p_device_found_def handle_p2p_connect_result_def
        handle_ap_enable_result_def handle_ap_sta_connected_def
        handle_ap_sta_disconnected_def Let_def split: option.splits if_splits)

text \<open>
  C2 (as the code has it). \<^verbatim>\<open>wifi_p2p_connect\<close> resolves the role from a fixed
  intent (15 or 0) as soon as its request is accepted, while the state is Connecting;
  \<^verbatim>\<open>wifi_p2p_group_add\<close> resolves it without touching the state; nothing but
  \<^verbatim>\<open>wifi_p2p_init\<close> resets it. What holds of every state reached from start-up by
  the orchestrator operations and the dispatcher handlers: the role is Undetermined
  exactly when no step since the last initialisation (since start-up, when there was
  none) has resolved it, the resolving steps being a connect call that goes through
  with intent 15 or 0, a group-add call that goes through, a connect-result success and
  an access-point-enable success. In particular the role is Undetermined after every
  initialisation until such a step. A dispatcher handler that changes the role leaves
  the state Connected or GroupFormed, while a connect call that resolves it leaves the
  state Connecting.
\<close>

theorem role_resolution:
  "(role (p2p_ctx (p2p_run iface acts)) = WIFI_P2P_ROLE_UNDETERMINED \<longleftrightarrow>
      (\<forall>a\<in>set (since_last_init acts). \<not> resolves_role iface a)) \<and>
   ((\<forall>a\<in>set post. \<not> resolves_role iface a) \<longrightarrow>
      role (p2p_ctx (p2p_run iface (pre @ ActInit # post))) = WIFI_P2P_ROLE_UNDETERMINED) \<and>
   (role (p2p_ctx (p2p_mgmt_event_handler e m)) \<noteq> role (p2p_ctx m) \<longrightarrow>
      state (p2p_ctx (p2p_mgmt_event_handler e m)) = WIFI_P2P_STATE_CONNECTED \<or>
      state (p2p_ctx (p2p_mgmt_event_handler e m)) = WIFI_P2P_STATE_GROUP_FORMED) \<and>
   (wifi_iface m \<and> (go_int = 15 \<or> go_int = 0) \<longrightarrow>
      state (p2p_ctx (snd (wifi_p2p_connect (Some pm) go_int freq 0 m)))
        = WIFI_P2P_STATE_CONNECTING \<and>
      role (p2p_ctx (snd (wifi_p2p_connect (Some pm) go_int freq 0 m)))
        = (if go_int = 15 then WIFI_P2P_ROLE_GO else WIFI_P2P_ROLE_CLI))"
proof (intro conjI impI)
  show "role (p2p_ctx (p2p_run iface acts)) = WIFI_P2P_ROLE_UNDETERMINED \<longleftrightarrow>
      (\<forall>a\<in>set (since_last_init acts). \<not> resolves_role iface a)"
    by (rule run_role_iff)
next
  assume "\<forall>a\<in>set post. \<not> resolves_role iface a"
  with since_last_init_after [of pre post]
  have "\<forall>a\<in>set (since_last_init (pre @ ActInit # post)). \<not> resolves_role iface a"
    by blast
  then show "role (p2p_ctx (p2p_run iface (pre @ ActInit # post)))
      = WIFI_P2P_ROLE_UNDETERMINED"
    by (simp only: run_role_iff)
next
  assume "role (p2p_ctx (p2p_mgmt_event_handler e m)) \<noteq> role (p2p_ctx m)"
  then show "state (p2p_ctx (p2p_mgmt_event_handler e m)) = WIFI_P2P_STATE_CONNECTED \<or>
      state (p2p_ctx (p2p_mgmt_event_handler e m)) = WIFI_P2P_STATE_GROUP_FORMED"
    by (rule handler_role_change)
next
  assume "wifi_iface m \<and> (go_int = 15 \<or> go_int = 0)"
  then show "state (p2p_ctx (snd (wifi_p2p_connect (Some pm) go_int freq 0 m)))
        = WIFI_P2P_STATE_CONNECTING"
    by (auto simp: wifi_p2p_connect_def Let_def)
next
  assume "wifi_iface m \<and> (go_int = 15 \<or> go_int = 0)"
  then show "role (p2p_ctx (snd (wifi_p2p_connect (Some pm) go_int freq 0 m)))
        = (if go_int = 15 then WIFI_P2P_ROLE_GO else WIFI_P2P_ROLE_CLI)"
    by (auto simp: wifi_p2p_connect_def Let_def)
qed

theorem role_resolution_witness:
  "role (p2p_ctx (p2p_run True
      [ActInit, ActConnect (Some [2, 0, 0, 0, 0, 1]) 15 2437 0, ActInit, ActFind 10 0,
       ActEvent (NET_EVENT_WIFI_CONNECT_RESULT (- 1))]))
     = WIFI_P2P_ROLE_UNDETERMINED \<and>
   role (p2p_ctx (p2p_run True
      [ActInit, ActConnect (Some [2, 0, 0, 0, 0, 1]) 15 2437 0, ActStopFind 0]))
     \<noteq> WIFI_P2P_ROLE_UNDETERMINED \<and>
   role (p2p_ctx (p2p_run False
      [ActInit, ActConnect (Some [2, 0, 0, 0, 0, 1]) 15 2437 0, ActGroupAdd 2437 0]))
     = WIFI_P2P_ROLE_UNDETERMINED \<and>
   state (p2p_ctx (p2p_mgmt_event_handler (NET_EVENT_WIFI_AP_ENABLE_RESULT 0) (p2p_boot True)))
     = WIFI_P2P_STATE_GROUP_FORMED \<and>
   state (p2p_ctx (snd (wifi_p2p_connect (Some [2, 0, 0, 0, 0, 1]) 0 2437 0 (p2p_boot True))))
     = WIFI_P2P_STATE_CONNECTING \<and>
   role (p2p_ctx (snd (wifi_p2p_connect (Some [2, 0, 0, 0, 0, 1]) 0 2437 0 (p2p_boot True))))
     = WIFI_P2P_ROLE_CLI"
proof -
  let ?c = "ActConnect (Some [2, 0, 0, 0, 0, 1]) 15 2437 0"
  have s1: "since_last_init [ActInit, ?c, ActStopFind 0] = [?c, ActStopFind 0]"
    and s2: "since_last_init [ActInit, ?c, ActGroupAdd 2437 0] = [?c, ActGroupAdd 2437 0]"
    by (simp_all add: since_last_init_def)
  from role_resolution [of True _ "[ActFind 10 0, ActEvent (NET_EVENT_WIFI_CONNECT_RESULT (- 1))]"
      "[ActInit, ?c]"]
  have a: "role (p2p_ctx (p2p_run True
      [ActInit, ?c, ActInit, ActFind 10 0, ActEvent (NET_EVENT_WIFI_CONNECT_RESULT (- 1))]))
     = WIFI_P2P_ROLE_UNDETERMINED"
    by simp
  from role_resolution [of True "[ActInit, ?c, ActStopFind 0]"] s1
  have b: "role (p2p_ctx (p2p_run True [ActInit, ?c, ActStopFind 0]))
     \<noteq> WIFI_P2P_ROLE_UNDETERMINED"
    by simp
  from role_resolution [of False "[ActInit, ?c, ActGroupAdd 2437 0]"] s2
  have c: "role (p2p_ctx (p2p_run False [ActInit, ?c, ActGroupAdd 2437 0]))
     = WIFI_P2P_ROLE_UNDETERMINED"
    by simp
  from role_resolution [of _ _ _ _ "NET_EVENT_WIFI_AP_ENABLE_RESULT 0" "p2p_boot True" 0
      "[2, 0, 0, 0, 0, 1]" 2437]
  have d: "state (p2p_ctx (p2p_mgmt_event_handler (NET_EVENT_WIFI_AP_ENABLE_RESULT 0)
        (p2p_boot True))) = WIFI_P2P_STATE_GROUP_FORMED"
    "state (p2p_ctx (snd (wifi_p2p_connect (Some [2, 0, 0, 0, 0, 1]) 0 2437 0 (p2p_boot True))))
       = WIFI_P2P_STATE_CONNECTING"
    "role (p2p_ctx (snd (wifi_p2p_connect (Some [2, 0, 0, 0, 0, 1]) 0 2437 0 (p2p_boot True))))
       = WIFI_P2P_ROLE_CLI"
    by (simp_all add: p2p_boot_def zero_ctx_def handle_ap_enable_result_def Let_def)
  show ?thesis using a b c d by simp
qed

text \<open>
  C2 as stated fails: after initialisation, a connect call with intent 15 that the radio
  subsystem accepts leaves the state Connecting with the role already GroupOwner.
\<close>

theorem role_invariant_counterexample:
  "role (p2p_ctx (p2p_run True [ActInit, ActConnect (Some [2, 0, 0, 0, 0, 1]) 15 2437 0]))
     \<noteq> WIFI_P2P_ROLE_UNDETERMINED \<and>
   state (p2p_ctx (p2p_run True [ActInit, ActConnect (Some [2, 0, 0, 0, 0, 1]) 15 2437 0]))
     \<noteq> WIFI_P2P_STATE_CONNECTED \<and>
   state (p2p_ctx (p2p_run True [ActInit, ActConnect (Some [2, 0, 0, 0, 0, 1]) 15 2437 0]))
     \<noteq> WIFI_P2P_STATE_GROUP_FORMED"
  by (simp add: p2p_run_def p2p_boot_def wifi_p2p_init_def wifi_p2p_connect_def Let_def
        iface_bring_up_def ext_def ctx_upd_def)

section \<open>Echo statistics\<close>

lemma ping_reply_after:
  "udp_echo_ping (ping (reply_after ms)) r = (64, ucast (ms * 1000))"
  by (simp add: reply_after_def udp_echo_ping_def udp_send_def udp_receive_def Let_def)

lemma ping_recv_timeout: "udp_echo_ping (ping recv_timeout) r = (- ETIMEDOUT, r)"
  by (simp add: recv_timeout_def udp_echo_ping_def udp_send_def udp_receive_def Let_def)

lemma ping_send_failure: "udp_echo_ping (ping send_failure) r = (- 12, r)"
  by (simp add: send_failure_def udp_echo_ping_def udp_send_def udp_receive_def Let_def)

lemma sample_flags:
  "stop_flag (reply_after ms) = False" "stop_flag recv_timeout = False"
  "stop_flag send_failure = False"
  by (simp_all add: reply_after_def recv_timeout_def send_failure_def)

lemma fresh_stats_eq: "fresh_stats = Some zero_stats"
  by (simp add: fresh_stats_def zero_stats_def udp_echo_reset_stats_def)

lemma three_replies:
  "client_update 64 64 20000 (client_update 64 64 5000 (client_update 64 64 10000 fresh_stats))
     = Some stats_3_replies"
proof -
  have "client_update 64 64 10000 fresh_stats
      = Some \<lparr>packets_sent = 1, packets_received = 1, bytes_sent = 64, bytes_received = 64,
          packets_lost = 0, rtt_min_us = 10000, rtt_max_us = 10000, rtt_avg_us = 10000,
          rtt_total_us = 10000\<rparr>"
    by (simp add: fresh_stats_def udp_echo_reset_stats_def client_update_def UINT32_MAX_def
        Let_def)
  moreover have "client_update 64 64 5000
        (Some \<lparr>packets_sent = 1, packets_received = 1, bytes_sent = 64, bytes_received = 64,
          packets_lost = 0, rtt_min_us = 10000, rtt_max_us = 10000, rtt_avg_us = 10000,
          rtt_total_us = 10000\<rparr>)
      = Some \<lparr>packets_sent = 2, packets_received = 2, bytes_sent = 128, bytes_received = 128,
          packets_lost = 0, rtt_min_us = 5000, rtt_max_us = 10000, rtt_avg_us = 7500,
          rtt_total_us = 15000\<rparr>"
    by (simp add: client_update_def Let_def)
  moreover have "client_update 64 64 20000
        (Some \<lparr>packets_sent = 2, packets_received = 2, bytes_sent = 128, bytes_received = 128,
          packets_lost = 0, rtt_min_us = 5000, rtt_max_us = 10000, rtt_avg_us = 7500,
          rtt_total_us = 15000\<rparr>)
      = Some stats_3_replies"
    by (simp add: client_update_def Let_def stats_3_replies_def)
  ultimately show ?thesis by simp
qed

lemma two_timeouts:
  "client_update 64 (- ETIMEDOUT) r2 (client_update 64 (- ETIMEDOUT) r1 (Some stats_3_replies))
     = Some stats_2_timeouts"
  by (simp add: client_update_def ETIMEDOUT_def stats_3_replies_def stats_2_timeouts_def)

text \<open>
  C4. From freshly reset statistics, three replies with round-trip times of 10000, 5000
  and 20000 microseconds (10, 5 and 20 ms between the two clock readings) give minimum
  5000, maximum 20000, average 11666, three packets received and none lost; two timeouts
  after them give five packets sent and two lost. The report's loss line is
  \<open>packets_lost * 100 div packets_sent\<close> in 32-bit unsigned arithmetic, here 40, and
  is left out when no packet was sent, so that no division by zero takes place.
\<close>

theorem stats_round_trip:
  "udp_echo_client_run 64 64 3 0 fresh_stats
       [reply_after 10, reply_after 5, reply_after 20, recv_timeout]
     = Some (CountReached, Some stats_3_replies) \<and>
   rtt_min_us stats_3_replies = 5000 \<and> rtt_max_us stats_3_replies = 20000 \<and>
   rtt_avg_us stats_3_replies = 11666 \<and> packets_received stats_3_replies = 3 \<and>
   packets_lost stats_3_replies = 0 \<and>
   udp_echo_client_run 64 64 5 0 fresh_stats
       [reply_after 10, reply_after 5, reply_after 20, recv_timeout, recv_timeout, recv_timeout]
     = Some (CountReached, Some stats_2_timeouts) \<and>
   packets_sent stats_2_timeouts = 5 \<and> packets_lost stats_2_timeouts = 2 \<and>
   map_option rep_loss_pct (udp_echo_print_stats (Some stats_2_timeouts)) = Some (Some 40) \<and>
   map_option rep_loss_pct (udp_echo_print_stats (Some s))
     = Some (if 0 < packets_sent s then Some (packets_lost s * 100 div packets_sent s) else None) \<and>
   map_option rep_loss_pct (udp_echo_print_stats fresh_stats) = Some None"
proof -
  have "udp_echo_client_run 64 64 3 0 fresh_stats
       [reply_after 10, reply_after 5, reply_after 20, recv_timeout]
     = Some (CountReached, Some stats_3_replies)"
    by (simp add: udp_echo_client_run_def ping_reply_after sample_flags three_replies
        word_le_nat_alt)
  moreover have "udp_echo_client_run 64 64 5 0 fresh_stats
       [reply_after 10, reply_after 5, reply_after 20, recv_timeout, recv_timeout, recv_timeout]
     = Some (CountReached, Some stats_2_timeouts)"
    by (simp add: udp_echo_client_run_def ping_reply_after ping_recv_timeout sample_flags
        three_replies two_timeouts word_le_nat_alt)
  moreover have "map_option rep_loss_pct (udp_echo_print_stats (Some stats_2_timeouts))
      = Some (Some 40)"
    by (simp add: udp_echo_print_stats_def stats_2_timeouts_def)
  moreover have "map_option rep_loss_pct (udp_echo_print_stats (Some s))
     = Some (if 0 < packets_sent s then Some (packets_lost s * 100 div packets_sent s) else None)"
    by (simp add: udp_echo_print_stats_def)
  moreover have "map_option rep_loss_pct (udp_echo_print_stats fresh_stats) = Some None"
    by (simp add: udp_echo_print_stats_def fresh_stats_eq zero_stats_def)
  ultimately show ?thesis
    by (simp add: stats_3_replies_def stats_2_timeouts_def)
qed

section \<open>Echo client loop\<close>

lemma ping_ret_independent: "fst (udp_echo_ping p r) = fst (udp_echo_ping p 0)"
  by (simp add: udp_echo_ping_def Let_def)

lemma client_update_counts:
  "\<exists>s'. client_update psz ret rtt (Some s) = Some s' \<and>
     packets_sent s' = packets_sent s + (if 0 < ret \<or> ret = - ETIMEDOUT then 1 else 0) \<and>
     packets_received s' + packets_lost s'
       = packets_received s + packets_lost s + (if 0 < ret \<or> ret = - ETIMEDOUT then 1 else 0)"
  by (simp add: client_update_def Let_def ETIMEDOUT_def)

lemma unat_inc: "(seq :: 32 word) < count \<Longrightarrow> unat (seq + 1) = Suc (unat seq)"
proof -
  assume "seq < count"
  then have "unat seq < unat count" by (simp add: word_less_nat_alt)
  moreover have "unat count < 2 ^ 32" using unsigned_less [of count] by simp
  ultimately have "unat seq + 1 < 2 ^ 32" by simp
  then show ?thesis by (simp add: unat_word_ariths)
qed

lemma client_loop_count_reached:
  assumes "client_loop psz count seq rtt (Some s) es = Some (CountReached, r)"
    and "0 < count" and "seq \<le> count"
  shows "\<exists>s'. r = Some s' \<and>
     packets_sent s' - (packets_received s' + packets_lost s')
       = packets_sent s - (packets_received s + packets_lost s) \<and>
     packets_received s' + packets_lost s'
       = packets_received s + packets_lost s
         + of_nat (length (filter (\<lambda>e. \<not> ping_failed e) (take (unat count - unat seq) es))) \<and>
     unat count - unat seq < length es"
  using assms
proof (induction es arbitrary: seq rtt s)
  case Nil
  then show ?case by simp
next
  case (Cons e es)
  from Cons.prems(1) have nostop: "\<not> stop_flag e"
    by (auto split: if_splits)
  show ?case
  proof (cases "count \<le> seq")
    case True
    with Cons.prems nostop have "r = Some s" and "seq = count" by auto
    then show ?thesis by simp
  next
    case False
    then have lt: "seq < count" by simp
    then have le': "seq + 1 \<le> count" by (simp add: inc_le)
    from lt have un: "unat (seq + 1) = Suc (unat seq)"
      by (rule unat_inc)
    from lt have ult: "unat seq < unat count" by (simp add: word_less_nat_alt)
    obtain ret rtt' where pg: "udp_echo_ping (ping e) rtt = (ret, rtt')"
      by (cases "udp_echo_ping (ping e) rtt")
    obtain s1 where s1: "client_update psz ret rtt' (Some s) = Some s1"
      and sent1: "packets_sent s1 = packets_sent s + (if 0 < ret \<or> ret = - ETIMEDOUT then 1 else 0)"
      and rl1: "packets_received s1 + packets_lost s1
         = packets_received s + packets_lost s + (if 0 < ret \<or> ret = - ETIMEDOUT then 1 else 0)"
      using client_update_counts [of psz ret rtt' s] by blast
    from Cons.prems(1) nostop False pg s1
    have rec: "client_loop psz count (seq + 1) rtt' (Some s1) es = Some (CountReached, r)"
      by simp
    from Cons.IH [OF rec Cons.prems(2) le'] obtain s' where r: "r = Some s'"
      and d: "packets_sent s' - (packets_received s' + packets_lost s')
         = packets_sent s1 - (packets_received s1 + packets_lost s1)"
      and c: "packets_received s' + packets_lost s'
         = packets_received s1 + packets_lost s1
           + of_nat (length (filter (\<lambda>e. \<not> ping_failed e) (take (unat count - unat (seq + 1)) es)))"
      and l: "unat count - unat (seq + 1) < length es"
      by blast
    from ult un have tk: "unat count - unat seq = Suc (unat count - unat (seq + 1))"
      by simp
    have pf: "ping_failed e \<longleftrightarrow> \<not> (0 < ret \<or> ret = - ETIMEDOUT)"
      using pg ping_ret_independent [of "ping e" rtt] by (simp add: ping_failed_def Let_def)
    have "packets_sent s1 - (packets_received s1 + packets_lost s1)
        = packets_sent s - (packets_received s + packets_lost s)"
      by (simp add: sent1 rl1)
    moreover have "packets_received s1 + packets_lost s1
           + of_nat (length (filter (\<lambda>e. \<not> ping_failed e) (take (unat count - unat (seq + 1)) es)))
        = packets_received s + packets_lost s
           + of_nat (length (filter (\<lambda>e. \<not> ping_failed e) (take (unat count - unat seq) (e # es))))"
      by (simp add: rl1 tk pf)
    moreover have "unat count - unat seq < length (e # es)"
      using l tk by simp
    ultimately show ?thesis using r d c by simp
  qed
qed

lemma client_loop_completes:
  assumes "0 < count" and "seq \<le> count" and "unat count - unat seq < length es"
    and "\<forall>e\<in>set (take (unat count - unat seq + 1) es). \<not> stop_flag e"
  shows "\<exists>r. client_loop psz count seq rtt st es = Some (CountReached, r)"
  using assms
proof (induction es arbitrary: seq rtt st)
  case Nil
  then show ?case by simp
next
  case (Cons e es)
  from Cons.prems(4) have nostop: "\<not> stop_flag e" by simp
  show ?case
  proof (cases "count \<le> seq")
    case True
    with nostop Cons.prems(1) show ?thesis by simp
  next
    case False
    then have lt: "seq < count" by simp
    then have le': "seq + 1 \<le> count" by (simp add: inc_le)
    from lt have un: "unat (seq + 1) = Suc (unat seq)"
      by (rule unat_inc)
    from lt have ult: "unat seq < unat count" by (simp add: word_less_nat_alt)
    from ult un have tk: "unat count - unat seq = Suc (unat count - unat (seq + 1))"
      by simp
    obtain ret rtt' where pg: "udp_echo_ping (ping e) rtt = (ret, rtt')"
      by (cases "udp_echo_ping (ping e) rtt")
    from Cons.prems(3) tk have len: "unat count - unat (seq + 1) < length es" by simp
    from Cons.prems(4) tk
    have fl: "\<forall>e\<in>set (take (unat count - unat (seq + 1) + 1) es). \<not> stop_flag e" by simp
    from Cons.IH [OF Cons.prems(1) le' len fl]
    obtain r where "client_loop psz count (seq + 1) rtt' (client_update psz ret rtt' st) es
        = Some (CountReached, r)" by blast
    with nostop False pg show ?thesis by simp
  qed
qed

text \<open>
  C6 (as the code has it). With a positive count and freshly reset statistics, a run that
  ends because the count was reached has \<open>packets_sent = packets_received +
  packets_lost\<close>, and \<open>packets_received + packets_lost\<close> is the count less the
  number of iterations whose ping failed: the loop body counts nothing for such an
  iteration and still advances the sequence number. The run does end that way when the
  stop flag reads false at the first \<open>count + 1\<close> loop heads.
\<close>

theorem client_clean_exit:
  assumes "0 < count"
  shows "(udp_echo_client_run cfg psz count rtt0 (udp_echo_reset_stats (Some s0)) script
            = Some (CountReached, r) \<longrightarrow>
          (\<exists>st. r = Some st \<and>
             packets_sent st = packets_received st + packets_lost st \<and>
             unat (packets_received st + packets_lost st)
               + length (filter ping_failed (take (unat count) script)) = unat count)) \<and>
         (unat count < length script \<and>
          (\<forall>e\<in>set (take (unat count + 1) script). \<not> stop_flag e) \<longrightarrow>
          (\<exists>st. udp_echo_client_run cfg psz count rtt0 (udp_echo_reset_stats (Some s0)) script
                  = Some (CountReached, Some st)))"
proof -
  define p where "p = (if cfg + 64 < psz then cfg + 64 else psz)"
  have run: "udp_echo_client_run cfg psz count rtt0 (udp_echo_reset_stats (Some s0)) script
      = client_loop p count 0 rtt0 (Some zero_stats) script"
    by (simp add: udp_echo_client_run_def p_def udp_echo_reset_stats_def zero_stats_def)
  have first: "\<exists>st. r = Some st \<and>
             packets_sent st = packets_received st + packets_lost st \<and>
             unat (packets_received st + packets_lost st)
               + length (filter ping_failed (take (unat count) script)) = unat count"
    if fin: "client_loop p count 0 rtt0 (Some zero_stats) script = Some (CountReached, r)"
  proof -
    let ?ok = "length (filter (\<lambda>e. \<not> ping_failed e) (take (unat count) script))"
    from client_loop_count_reached [OF fin assms] obtain st where r: "r = Some st"
      and d: "packets_sent st - (packets_received st + packets_lost st) = 0"
      and c: "packets_received st + packets_lost st = of_nat ?ok"
      and l: "unat count < length script"
      by (auto simp: zero_stats_def)
    have "?ok \<le> unat count"
      using length_filter_le [of "\<lambda>e. \<not> ping_failed e" "take (unat count) script"] by simp
    moreover have "unat count < 2 ^ 32" using unsigned_less [of count] by simp
    ultimately have "?ok < 2 ^ 32" by simp
    then have "unat (of_nat ?ok :: 32 word) = ?ok"
      by (simp add: unat_of_nat)
    moreover have "?ok + length (filter ping_failed (take (unat count) script)) = unat count"
      using sum_length_filter_compl [of ping_failed "take (unat count) script"] l by simp
    ultimately have "unat (packets_received st + packets_lost st)
        + length (filter ping_failed (take (unat count) script)) = unat count"
      using c by simp
    with r d show ?thesis by simp
  qed
  have second: "\<exists>st. client_loop p count 0 rtt0 (Some zero_stats) script
      = Some (CountReached, Some st)"
    if len: "unat count < length script"
      and fl: "\<forall>e\<in>set (take (unat count + 1) script). \<not> stop_flag e"
  proof -
    from client_loop_completes [of count 0 script p rtt0 "Some zero_stats"] assms len fl
    obtain r' where r': "client_loop p count 0 rtt0 (Some zero_stats) script
        = Some (CountReached, r')" by auto
    from client_loop_count_reached [OF r' assms] obtain st where "r' = Some st" by auto
    with r' show ?thesis by simp
  qed
  show ?thesis using first second by (simp add: run)
qed

theorem client_clean_exit_witness:
  "\<exists>st. udp_echo_client_run 64 64 3 0 fresh_stats
           [reply_after 10, send_failure, recv_timeout, recv_timeout]
         = Some (CountReached, Some st) \<and>
        packets_sent st = packets_received st + packets_lost st \<and>
        unat (packets_received st + packets_lost st) + 1 = 3"
proof -
  let ?script = "[reply_after 10, send_failure, recv_timeout, recv_timeout]"
  have pos: "(0 :: 32 word) < 3" by simp
  have failed: "\<not> ping_failed (reply_after 10)" "ping_failed send_failure"
    "\<not> ping_failed recv_timeout"
    by (simp_all add: ping_failed_def ping_reply_after ping_send_failure ping_recv_timeout
        ETIMEDOUT_def)
  have n: "length (filter ping_failed (take (unat (3 :: 32 word)) ?script)) = 1"
    by (simp add: failed)
  have len: "unat (3 :: 32 word) < length ?script" by simp
  have fl: "\<forall>e\<in>set (take (unat (3 :: 32 word) + 1) ?script). \<not> stop_flag e"
    by (simp add: sample_flags)
  note ce = client_clean_exit [OF pos, of 64 64 0 stale_stats ?script, folded fresh_stats_def]
  from ce len fl obtain st where run: "udp_echo_client_run 64 64 3 0 fresh_stats ?script
      = Some (CountReached, Some st)" by blast
  with ce [of "Some st"] n
  have "packets_sent st = packets_received st + packets_lost st \<and>
        unat (packets_received st + packets_lost st) + 1 = 3" by simp
  with run show ?thesis by blast
qed

text \<open>
  C6 as stated fails: with count 1 and a ping whose send fails, the loop ends because
  the count was reached, with nothing received and nothing lost.
\<close>

theorem client_count_counterexample:
  "udp_echo_client_run 64 64 1 0 fresh_stats [send_failure, recv_timeout]
     = Some (CountReached, Some zero_stats) \<and>
   packets_received zero_stats + packets_lost zero_stats \<noteq> 1"
  by (simp add: udp_echo_client_run_def ping_send_failure sample_flags client_update_def
      ETIMEDOUT_def fresh_stats_eq zero_stats_def)

section \<open>Echo server loop\<close>

lemma server_loop_running:
  "\<forall>x\<in>set es. \<not> srv_stop x \<Longrightarrow> server_loop st es = None"
  by (induction es arbitrary: st) simp_all

lemma server_loop_stopped:
  "srv_stop e \<Longrightarrow> \<forall>x\<in>set pre. \<not> srv_stop x \<Longrightarrow>
     server_loop st (pre @ e # post) = Some (foldl (\<lambda>s x. server_iter x s) st pre)"
  by (induction pre arbitrary: st) simp_all

lemma server_loop_None_iff:
  "server_loop st es = None \<longleftrightarrow> (\<forall>x\<in>set es. \<not> srv_stop x)"
  by (induction es arbitrary: st) auto

text \<open>
  C7. In an iteration of the server loop, a receive that fails (the timeout included)
  changes nothing, and the loop goes on to read the stop flag again. Received data
  raises the received-packet counter by one and the received-byte counter by the
  length, and the first \<open>recv_len\<close> bytes of the buffer are handed to the send with the
  sender's address as destination; when that send fails the two sent counters stay as
  they were. The loop returns exactly when a stop flag is read as set: up to there
  every iteration is run, whatever its receive and send results were.
\<close>

theorem server_loop_behaviour:
  "(sys_ret (srv_recv e) < 0 \<longrightarrow> server_iter e st = st) \<and>
   (0 < sys_ret (srv_recv e) \<longrightarrow>
      snd (server_iter e (Some s, out))
        = out @ [(take (nat (sys_ret (srv_recv e))) (srv_buffer e), srv_client_addr e)] \<and>
      map_option packets_received (fst (server_iter e (Some s, out)))
        = Some (packets_received s + 1) \<and>
      map_option bytes_received (fst (server_iter e (Some s, out)))
        = Some (bytes_received s + of_int (sys_ret (srv_recv e))) \<and>
      (sys_ret (srv_send e) < 0 \<longrightarrow>
         map_option packets_sent (fst (server_iter e (Some s, out))) = Some (packets_sent s) \<and>
         map_option bytes_sent (fst (server_iter e (Some s, out))) = Some (bytes_sent s))) \<and>
   (udp_echo_server_run stats script = None \<longleftrightarrow> (\<forall>x\<in>set script. \<not> srv_stop x)) \<and>
   (srv_stop x \<and> (\<forall>y\<in>set pre. \<not> srv_stop y) \<longrightarrow>
      udp_echo_server_run stats (pre @ x # post)
        = Some (foldl (\<lambda>s y. server_iter y s) (stats, []) pre))"
proof (intro conjI impI)
  show "udp_echo_server_run stats script = None \<longleftrightarrow> (\<forall>x\<in>set script. \<not> srv_stop x)"
    by (simp add: udp_echo_server_run_def server_loop_None_iff)
next
  assume "srv_stop x \<and> (\<forall>y\<in>set pre. \<not> srv_stop y)"
  then show "udp_echo_server_run stats (pre @ x # post)
        = Some (foldl (\<lambda>s y. server_iter y s) (stats, []) pre)"
    by (simp add: udp_echo_server_run_def server_loop_stopped)
qed (simp_all add: server_iter_def Let_def)

theorem server_loop_behaviour_witness:
  "server_iter srv_timeout (Some zero_stats, []) = (Some zero_stats, []) \<and>
   snd (server_iter (srv_data \<lparr>sys_ret = - 1, sys_errno = 12\<rparr>) (Some zero_stats, []))
     = [([83, 69, 81], \<lparr>sin_addr = 3232258058, sin_port = 5001\<rparr>)] \<and>
   map_option packets_received
       (fst (server_iter (srv_data \<lparr>sys_ret = - 1, sys_errno = 12\<rparr>) (Some zero_stats, [])))
     = Some 1 \<and>
   map_option bytes_received
       (fst (server_iter (srv_data \<lparr>sys_ret = - 1, sys_errno = 12\<rparr>) (Some zero_stats, [])))
     = Some 3 \<and>
   map_option packets_sent
       (fst (server_iter (srv_data \<lparr>sys_ret = - 1, sys_errno = 12\<rparr>) (Some zero_stats, [])))
     = Some 0 \<and>
   map_option bytes_sent
       (fst (server_iter (srv_data \<lparr>sys_ret = - 1, sys_errno = 12\<rparr>) (Some zero_stats, [])))
     = Some 0 \<and>
   udp_echo_server_run (Some zero_stats) [srv_timeout, srv_timeout] = None \<and>
   udp_echo_server_run (Some zero_stats) [srv_timeout, srv_halt, srv_timeout]
     = Some (Some zero_stats, [])"
proof -
  let ?d = "srv_data \<lparr>sys_ret = - 1, sys_errno = 12\<rparr>"
  have t: "sys_ret (srv_recv srv_timeout) < 0" "\<not> srv_stop srv_timeout"
    by (simp_all add: srv_timeout_def)
  have d: "0 < sys_ret (srv_recv ?d)" "sys_ret (srv_send ?d) < 0" "sys_ret (srv_recv ?d) = 3"
    "srv_buffer ?d = [83, 69, 81, 0, 0]"
    "srv_client_addr ?d = \<lparr>sin_addr = 3232258058, sin_port = 5001\<rparr>"
    by (simp_all add: srv_data_def)
  have h: "srv_stop srv_halt" by (simp add: srv_halt_def)
  have z: "packets_received zero_stats = 0" "bytes_received zero_stats = 0"
    "packets_sent zero_stats = 0" "bytes_sent zero_stats = 0"
    by (simp_all add: zero_stats_def)
  have tk: "take (nat 3) [83, 69, 81, 0, 0 :: 8 word] = [83, 69, 81]"
    by (simp add: numeral_eq_Suc)
  from server_loop_behaviour [of srv_timeout "(Some zero_stats, [])" zero_stats "[]"
      "Some zero_stats" "[srv_timeout, srv_timeout]" srv_halt "[srv_timeout]" "[srv_timeout]"] t h
  have a: "server_iter srv_timeout (Some zero_stats, []) = (Some zero_stats, [])"
    and b: "udp_echo_server_run (Some zero_stats) [srv_timeout, srv_timeout] = None"
    and c: "udp_echo_server_run (Some zero_stats) [srv_timeout, srv_halt, srv_timeout]
        = Some (server_iter srv_timeout (Some zero_stats, []))"
    by simp_all
  from server_loop_behaviour [of ?d "(Some zero_stats, [])" zero_stats "[]"] d z tk
  have e: "snd (server_iter ?d (Some zero_stats, []))
       = [([83, 69, 81], \<lparr>sin_addr = 3232258058, sin_port = 5001\<rparr>)]"
    "map_option packets_received (fst (server_iter ?d (Some zero_stats, []))) = Some 1"
    "map_option bytes_received (fst (server_iter ?d (Some zero_stats, []))) = Some 3"
    "map_option packets_sent (fst (server_iter ?d (Some zero_stats, []))) = Some 0"
    "map_option bytes_sent (fst (server_iter ?d (Some zero_stats, []))) = Some 0"
    by simp_all
  show ?thesis using a b c e by simp
qed

section \<open>Peer selection\<close>

lemma best_rssi_loop_spec:
  "(if \<exists>p\<in>set ps. best_rssi < rssi p
    then \<exists>k<length ps. best_rssi_loop ps i best_idx best_rssi = int (i + k) \<and>
           best_rssi < rssi (ps ! k) \<and>
           (\<forall>p\<in>set ps. rssi p \<le> rssi (ps ! k)) \<and>
           (\<forall>j<k. rssi (ps ! j) < rssi (ps ! k))
    else best_rssi_loop ps i best_idx best_rssi = best_idx)"
proof (induction ps arbitrary: i best_idx best_rssi)
  case Nil
  show ?case by simp
next
  case (Cons p ps)
  show ?case
  proof (cases "best_rssi < rssi p")
    case True
    note IH = Cons.IH [of "rssi p" "i + 1" "int i"]
    show ?thesis
    proof (cases "\<exists>q\<in>set ps. rssi p < rssi q")
      case better: True
      with IH obtain k where k: "k < length ps"
        and r: "best_rssi_loop ps (i + 1) (int i) (rssi p) = int (i + 1 + k)"
        and gt: "rssi p < rssi (ps ! k)"
        and mx: "\<forall>q\<in>set ps. rssi q \<le> rssi (ps ! k)"
        and fst: "\<forall>j<k. rssi (ps ! j) < rssi (ps ! k)"
        by auto
      have "\<forall>j<Suc k. rssi ((p # ps) ! j) < rssi ((p # ps) ! Suc k)"
        using gt fst by (auto simp: nth_Cons split: nat.splits)
      moreover have "\<forall>q\<in>set (p # ps). rssi q \<le> rssi ((p # ps) ! Suc k)"
        using gt mx by auto
      moreover have "best_rssi_loop (p # ps) i best_idx best_rssi = int (i + Suc k)"
        using True r by simp
      moreover have "best_rssi < rssi ((p # ps) ! Suc k)" using True gt by simp
      moreover have "Suc k < length (p # ps)" using k by simp
      ultimately have "\<exists>k<length (p # ps).
           best_rssi_loop (p # ps) i best_idx best_rssi = int (i + k) \<and>
           best_rssi < rssi ((p # ps) ! k) \<and>
           (\<forall>q\<in>set (p # ps). rssi q \<le> rssi ((p # ps) ! k)) \<and>
           (\<forall>j<k. rssi ((p # ps) ! j) < rssi ((p # ps) ! k))"
        by blast
      moreover have "\<exists>q\<in>set (p # ps). best_rssi < rssi q" using True by auto
      ultimately show ?thesis by simp
    next
      case nobetter: False
      with IH have r: "best_rssi_loop ps (i + 1) (int i) (rssi p) = int i" by simp
      have "best_rssi_loop (p # ps) i best_idx best_rssi = int (i + 0) \<and>
           best_rssi < rssi ((p # ps) ! 0) \<and>
           (\<forall>q\<in>set (p # ps). rssi q \<le> rssi ((p # ps) ! 0)) \<and>
           (\<forall>j<0. rssi ((p # ps) ! j) < rssi ((p # ps) ! 0))"
        using True r nobetter by auto
      then have "\<exists>k<length (p # ps).
           best_rssi_loop (p # ps) i best_idx best_rssi = int (i + k) \<and>
           best_rssi < rssi ((p # ps) ! k) \<and>
           (\<forall>q\<in>set (p # ps). rssi q \<le> rssi ((p # ps) ! k)) \<and>
           (\<forall>j<k. rssi ((p # ps) ! j) < rssi ((p # ps) ! k))"
        by (intro exI [of _ 0]) auto
      moreover have "\<exists>q\<in>set (p # ps). best_rssi < rssi q" using True by auto
      ultimately show ?thesis by simp
    qed
  next
    case False
    note IH = Cons.IH [of best_rssi "i + 1" best_idx]
    show ?thesis
    proof (cases "\<exists>q\<in>set ps. best_rssi < rssi q")
      case better: True
      with IH obtain k where k: "k < length ps"
        and r: "best_rssi_loop ps (i + 1) best_idx best_rssi = int (i + 1 + k)"
        and gt: "best_rssi < rssi (ps ! k)"
        and mx: "\<forall>q\<in>set ps. rssi q \<le> rssi (ps ! k)"
        and fst: "\<forall>j<k. rssi (ps ! j) < rssi (ps ! k)"
        by auto
      have "\<forall>j<Suc k. rssi ((p # ps) ! j) < rssi ((p # ps) ! Suc k)"
        using gt fst False by (auto simp: nth_Cons split: nat.splits)
      moreover have "\<forall>q\<in>set (p # ps). rssi q \<le> rssi ((p # ps) ! Suc k)"
        using gt mx False by auto
      moreover have "best_rssi_loop (p # ps) i best_idx best_rssi = int (i + Suc k)"
        using False r by simp
      moreover have "best_rssi < rssi ((p # ps) ! Suc k)" using gt by simp
      moreover have "Suc k < length (p # ps)" using k by simp
      ultimately have "\<exists>k<length (p # ps).
           best_rssi_loop (p # ps) i best_idx best_rssi = int (i + k) \<and>
           best_rssi < rssi ((p # ps) ! k) \<and>
           (\<forall>q\<in>set (p # ps). rssi q \<le> rssi ((p # ps) ! k)) \<and>
           (\<forall>j<k. rssi ((p # ps) ! j) < rssi ((p # ps) ! k))"
        by blast
      moreover have "\<exists>q\<in>set (p # ps). best_rssi < rssi q" using better by auto
      ultimately show ?thesis by simp
    next
      case nobetter: False
      with IH have "best_rssi_loop ps (i + 1) best_idx best_rssi = best_idx" by simp
      moreover have "\<not> (\<exists>q\<in>set (p # ps). best_rssi < rssi q)" using False nobetter by auto
      ultimately show ?thesis using False by simp
    qed
  qed
qed

lemma find_mac_from_none:
  "\<forall>p\<in>set ps. \<not> memcmp_mac (mac p) f \<Longrightarrow> find_mac_from ps f i = None"
  by (induction ps arbitrary: i) simp_all

lemma find_mac_from_bound:
  "find_mac_from ps f i = Some k \<Longrightarrow> i \<le> k \<and> k < i + length ps \<and> memcmp_mac (mac (ps ! (k - i))) f"
proof (induction ps arbitrary: i)
  case Nil then show ?case by simp
next
  case (Cons p ps)
  show ?case
  proof (cases "memcmp_mac (mac p) f")
    case True with Cons.prems show ?thesis by simp
  next
    case False
    with Cons.prems have "find_mac_from ps f (i + 1) = Some k" by simp
    from Cons.IH [OF this] have le: "i + 1 \<le> k" and lt: "k < i + 1 + length ps"
      and m: "memcmp_mac (mac (ps ! (k - (i + 1)))) f" by simp_all
    from le have "k - i = Suc (k - (i + 1))" by simp
    then have "(p # ps) ! (k - i) = ps ! (k - (i + 1))" by simp
    with le lt m show ?thesis by simp
  qed
qed

section \<open>Pairing orchestrator\<close>

lemma calls_notify [simp]: "calls (notify_user_event ev m) = calls m"
  by (simp add: notify_user_event_def)

lemma calls_ctx_upd [simp]: "calls (ctx_upd f m) = calls m"
  by (simp add: ctx_upd_def)

lemma handler_no_connect_req:
  "filter is_connect_req (calls (p2p_mgmt_event_handler e m)) = filter is_connect_req (calls m)"
  by (cases e)
     (simp_all add: handle_p2p_device_found_def handle_p2p_connect_result_def
        handle_ap_enable_result_def handle_ap_sta_connected_def handle_ap_sta_disconnected_def
        iface_bring_up_def ext_def is_connect_req_def Let_def split: option.splits)

lemma deliver_no_connect_req:
  "filter is_connect_req (calls (deliver evs m)) = filter is_connect_req (calls m)"
  unfolding deliver_def
  by (induction evs arbitrary: m) (simp_all add: handler_no_connect_req)

lemma stop_find_no_connect_req:
  "filter is_connect_req (calls (snd (wifi_p2p_stop_find ret m))) = filter is_connect_req (calls m)"
  by (simp add: wifi_p2p_stop_find_def ext_def is_connect_req_def Let_def)

text \<open>Fields of the application state that the user callback leaves alone.\<close>

lemma app_call_fields [simp]:
  "p2p (app_call c a) = p2p a"
  "p2p_pairing_in_progress (app_call c a) = p2p_pairing_in_progress a"
  "connect_work_submitted (app_call c a) = connect_work_submitted a"
  "discovered_peers (app_call c a) = discovered_peers a"
  "discovered_peer_count (app_call c a) = discovered_peer_count a"
  by (simp_all add: app_call_def)

lemma stop_udp_echo_fields [simp]:
  "p2p (stop_udp_echo a) = p2p a"
  "p2p_pairing_in_progress (stop_udp_echo a) = p2p_pairing_in_progress a"
  "connect_work_submitted (stop_udp_echo a) = connect_work_submitted a"
  "discovered_peers (stop_udp_echo a) = discovered_peers a"
  "discovered_peer_count (stop_udp_echo a) = discovered_peer_count a"
  by (simp_all add: stop_udp_echo_def udp_client_cleanup_def Let_def)

lemma event_handler_fields [simp]:
  "p2p (p2p_event_handler ev a) = p2p a"
  "p2p_pairing_in_progress (p2p_event_handler ev a) = p2p_pairing_in_progress a"
  "connect_work_submitted (p2p_event_handler ev a) = connect_work_submitted a"
  "discovered_peers (p2p_event_handler ev a) = discovered_peers a"
  "discovered_peer_count (p2p_event_handler ev a) = discovered_peer_count a"
  by (simp_all add: p2p_event_handler_def update_leds_def split: wifi_p2p_event.splits)

lemma callbacks_fields [simp]:
  "p2p (foldl (\<lambda>s ev. p2p_event_handler ev s) a evs) = p2p a"
  "p2p_pairing_in_progress (foldl (\<lambda>s ev. p2p_event_handler ev s) a evs) = p2p_pairing_in_progress a"
  "connect_work_submitted (foldl (\<lambda>s ev. p2p_event_handler ev s) a evs) = connect_work_submitted a"
  "discovered_peers (foldl (\<lambda>s ev. p2p_event_handler ev s) a evs) = discovered_peers a"
  "discovered_peer_count (foldl (\<lambda>s ev. p2p_event_handler ev s) a evs) = discovered_peer_count a"
  by (induction evs arbitrary: a) simp_all

lemma with_p2p_fields [simp]:
  "p2p (snd (with_p2p f a)) = snd (f (p2p a))"
  "p2p_pairing_in_progress (snd (with_p2p f a)) = p2p_pairing_in_progress a"
  "connect_work_submitted (snd (with_p2p f a)) = connect_work_submitted a"
  "discovered_peers (snd (with_p2p f a)) = discovered_peers a"
  "discovered_peer_count (snd (with_p2p f a)) = discovered_peer_count a"
  "fst (with_p2p f a) = fst (f (p2p a))"
  by (simp_all add: with_p2p_def Let_def split: prod.splits)

lemma k_sleep_fields [simp]:
  "p2p (k_sleep ms evs a) = deliver evs (p2p a)"
  "p2p_pairing_in_progress (k_sleep ms evs a) = p2p_pairing_in_progress a"
  "connect_work_submitted (k_sleep ms evs a) = connect_work_submitted a"
  "discovered_peers (k_sleep ms evs a) = discovered_peers a"
  "discovered_peer_count (k_sleep ms evs a) = discovered_peer_count a"
  by (simp_all add: k_sleep_def)

lemma clr_Let: "(\<And>v. \<not> p2p_pairing_in_progress (f v)) \<Longrightarrow> \<not> p2p_pairing_in_progress (Let e f)"
  by (simp add: Let_def)

lemma clr_if:
  "\<not> p2p_pairing_in_progress x \<Longrightarrow> \<not> p2p_pairing_in_progress y \<Longrightarrow>
     \<not> p2p_pairing_in_progress (if c then x else y)"
  by simp

lemma clr_case_option:
  "\<not> p2p_pairing_in_progress x \<Longrightarrow> (\<And>i. \<not> p2p_pairing_in_progress (f i)) \<Longrightarrow>
     \<not> p2p_pairing_in_progress (case_option x f opt)"
  by (cases opt) simp_all

lemma clr_case_prod:
  "(\<And>u v. \<not> p2p_pairing_in_progress (f u v)) \<Longrightarrow> \<not> p2p_pairing_in_progress (case_prod f pr)"
  by (cases pr) simp

lemma connect_handler_clears:
  "\<not> p2p_pairing_in_progress (p2p_connect_handler cfg sc env a)"
  unfolding p2p_connect_handler_def
  by (intro clr_Let clr_if clr_case_option clr_case_prod) simp_all

lemma start_handler_rejects:
  "p2p_pairing_in_progress a \<Longrightarrow> p2p_start_handler cfg env a = a"
  by (simp add: p2p_start_handler_def)

lemma start_handler_flag:
  "\<not> p2p_pairing_in_progress a \<Longrightarrow> \<not> connect_work_submitted a \<Longrightarrow>
     p2p_pairing_in_progress (p2p_start_handler cfg env a)
       = connect_work_submitted (p2p_start_handler cfg env a)"
  by (simp add: p2p_start_handler_def Let_def split_beta)

lemma connect_handler_no_target:
  assumes "discovered_peer_count a \<noteq> 0"
    and "select_target_peer cfg sc (discovered_peers a) (discovered_peer_count a) = None"
  shows "p2p_connect_handler cfg sc env a
     = (k_sleep (CONFIG_P2P_FIND_STOP_DELAY_MS cfg) (stop_events env)
          (snd (with_p2p (wifi_p2p_stop_find (stop_find_ret env))
                  (a\<lparr>connect_work_submitted := False\<rparr>))))\<lparr>p2p_pairing_in_progress := False\<rparr>"
  using assms by (simp add: p2p_connect_handler_def Let_def)

lemma connect_handler_no_target_calls:
  assumes "discovered_peer_count a \<noteq> 0"
    and "select_target_peer cfg sc (discovered_peers a) (discovered_peer_count a) = None"
  shows "filter is_connect_req (calls (p2p (p2p_connect_handler cfg sc env a)))
     = filter is_connect_req (calls (p2p a))"
  by (simp add: connect_handler_no_target [OF assms] deliver_no_connect_req
      stop_find_no_connect_req)

lemma select_auto:
  assumes "CONFIG_P2P_TARGET_PEER_MAC cfg = []" and "take (unat n) peers \<noteq> []"
    and "\<forall>p\<in>set (take (unat n) peers). INT_MIN < rssi p"
  shows "\<exists>k. select_target_peer cfg sc peers n = Some k \<and> k < length (take (unat n) peers) \<and>
           (\<forall>p\<in>set (take (unat n) peers). rssi p \<le> rssi (peers ! k)) \<and>
           (\<forall>j<k. rssi (peers ! j) < rssi (peers ! k))"
proof -
  let ?ps = "take (unat n) peers"
  from assms(2) obtain q where "q \<in> set ?ps" by (cases ?ps) auto
  with assms(3) have ex: "\<exists>p\<in>set ?ps. INT_MIN < rssi p" by blast
  with best_rssi_loop_spec [of ?ps INT_MIN 0 "- 1"]
  obtain k where k: "k < length ?ps"
    and r: "best_rssi_loop ?ps 0 (- 1) INT_MIN = int k"
    and mx: "\<forall>p\<in>set ?ps. rssi p \<le> rssi (?ps ! k)"
    and fs: "\<forall>j<k. rssi (?ps ! j) < rssi (?ps ! k)"
    by auto
  from k have nk: "?ps ! k = peers ! k" by simp
  have nj: "?ps ! j = peers ! j" if "j < k" for j using that k by simp
  from r assms(1) have "select_target_peer cfg sc peers n = Some k"
    by (simp add: select_target_peer_def)
  with k mx fs nk nj show ?thesis by auto
qed

lemma select_filter_none:
  assumes "CONFIG_P2P_TARGET_PEER_MAC cfg \<noteq> []"
    and "\<forall>p\<in>set (take (unat n) peers).
           parse_mac_address sc (CONFIG_P2P_TARGET_PEER_MAC cfg)
             \<noteq> Some (take WIFI_MAC_ADDR_LEN (mac p))"
  shows "select_target_peer cfg sc peers n = None"
proof (cases "parse_mac_address sc (CONFIG_P2P_TARGET_PEER_MAC cfg)")
  case None
  with assms(1) show ?thesis
    by (simp add: select_target_peer_def wifi_p2p_find_peer_by_mac_def)
next
  case (Some fm)
  then have len: "length fm = 6"
    by (auto simp: parse_mac_address_def Let_def split: if_splits)
  have "\<forall>p\<in>set (take (unat n) peers). \<not> memcmp_mac (mac p) fm"
    using assms(2) Some len by (auto simp: memcmp_mac_def WIFI_MAC_ADDR_LEN_def)
  then have "find_mac_from (take (unat n) peers) fm 0 = None"
    by (rule find_mac_from_none)
  with assms(1) Some show ?thesis
    by (simp add: select_target_peer_def wifi_p2p_find_peer_by_mac_def)
qed

lemma connect_handler_no_peers:
  "discovered_peer_count a = 0 \<Longrightarrow>
     p2p_connect_handler cfg sc env a
       = a\<lparr>connect_work_submitted := False, p2p_pairing_in_progress := False\<rparr>"
  by (simp add: p2p_connect_handler_def)

text \<open>
  C5. Selection is a function of the configured filter, the scanner's reading of it and
  the discovered peers below the count. With an empty filter it returns the first index
  that holds the highest RSSI; for the values -70, -40, -55 that is index 1. This needs a
  peer and RSSI values above \<^verbatim>\<open>INT_MIN\<close>, the loop's start value, which every signed
  type narrower than \<^verbatim>\<open>int\<close> gives. With a non-empty filter that no peer's address
  equals, selection returns no peer, and the connect sequence ends with the in-flight
  flag cleared and without a connect request.
\<close>

theorem peer_selection:
  "(CONFIG_P2P_TARGET_PEER_MAC cfg = [] \<longrightarrow>
      select_target_peer cfg sc three_peers 3 = Some 1 \<and>
      (take (unat n) peers \<noteq> [] \<and> (\<forall>p\<in>set (take (unat n) peers). INT_MIN < rssi p) \<longrightarrow>
         (\<exists>k. select_target_peer cfg sc peers n = Some k \<and> k < length (take (unat n) peers) \<and>
              (\<forall>p\<in>set (take (unat n) peers). rssi p \<le> rssi (peers ! k)) \<and>
              (\<forall>j<k. rssi (peers ! j) < rssi (peers ! k))))) \<and>
   (CONFIG_P2P_TARGET_PEER_MAC cfg \<noteq> [] \<and>
    (\<forall>p\<in>set (take (unat n) peers).
        parse_mac_address sc (CONFIG_P2P_TARGET_PEER_MAC cfg)
          \<noteq> Some (take WIFI_MAC_ADDR_LEN (mac p))) \<longrightarrow>
      select_target_peer cfg sc peers n = None \<and>
      (discovered_peers a = peers \<and> discovered_peer_count a = n \<longrightarrow>
         \<not> p2p_pairing_in_progress (p2p_connect_handler cfg sc env a) \<and>
         filter is_connect_req (calls (p2p (p2p_connect_handler cfg sc env a)))
           = filter is_connect_req (calls (p2p a))))"
proof (intro conjI impI)
  assume "CONFIG_P2P_TARGET_PEER_MAC cfg = []"
  then show "select_target_peer cfg sc three_peers 3 = Some 1"
    by (simp add: select_target_peer_def three_peers_def INT_MIN_def)
next
  assume "CONFIG_P2P_TARGET_PEER_MAC cfg = []"
    and "take (unat n) peers \<noteq> [] \<and> (\<forall>p\<in>set (take (unat n) peers). INT_MIN < rssi p)"
  then show "\<exists>k. select_target_peer cfg sc peers n = Some k \<and> k < length (take (unat n) peers) \<and>
              (\<forall>p\<in>set (take (unat n) peers). rssi p \<le> rssi (peers ! k)) \<and>
              (\<forall>j<k. rssi (peers ! j) < rssi (peers ! k))"
    using select_auto [of cfg n peers sc] by blast
next
  assume h: "CONFIG_P2P_TARGET_PEER_MAC cfg \<noteq> [] \<and>
    (\<forall>p\<in>set (take (unat n) peers).
        parse_mac_address sc (CONFIG_P2P_TARGET_PEER_MAC cfg)
          \<noteq> Some (take WIFI_MAC_ADDR_LEN (mac p)))"
  then show none: "select_target_peer cfg sc peers n = None"
    using select_filter_none [of cfg n peers sc] by blast
  assume eq: "discovered_peers a = peers \<and> discovered_peer_count a = n"
  show "\<not> p2p_pairing_in_progress (p2p_connect_handler cfg sc env a)"
    by (rule connect_handler_clears)
  show "filter is_connect_req (calls (p2p (p2p_connect_handler cfg sc env a)))
           = filter is_connect_req (calls (p2p a))"
  proof (cases "discovered_peer_count a = 0")
    case True
    then show ?thesis by (simp add: connect_handler_no_peers)
  next
    case False
    with none eq show ?thesis by (simp add: connect_handler_no_target_calls)
  qed
qed

theorem peer_selection_witness:
  "select_target_peer auto_cfg sscanf_mac three_peers 3 = Some 1 \<and>
   select_target_peer auto_cfg sscanf_mac tied_peers 2 = Some 0 \<and>
   select_target_peer filter_cfg sscanf_mac three_peers 3 = None \<and>
   \<not> p2p_pairing_in_progress (p2p_connect_handler filter_cfg sscanf_mac quiet_connect found_app) \<and>
   filter is_connect_req
     (calls (p2p (p2p_connect_handler filter_cfg sscanf_mac quiet_connect found_app))) = []"
proof -
  have auto: "CONFIG_P2P_TARGET_PEER_MAC auto_cfg = []"
    by (simp add: auto_cfg_def)
  have flt: "CONFIG_P2P_TARGET_PEER_MAC filter_cfg = ''02:00:00:00:00:09''"
    by (simp add: filter_cfg_def)
  have pm: "parse_mac_address sscanf_mac ''02:00:00:00:00:09'' = Some [2, 0, 0, 0, 0, 9]"
    by code_simp
  have t3: "take (unat (3 :: 16 word)) three_peers = three_peers"
    by (simp add: three_peers_def)
  have t2: "take (unat (2 :: 16 word)) tied_peers = tied_peers"
    by (simp add: tied_peers_def)
  have r2: "\<forall>p\<in>set tied_peers. INT_MIN < rssi p" "tied_peers \<noteq> []" "length tied_peers = 2"
    "rssi (tied_peers ! 0) = rssi (tied_peers ! 1)"
    by (simp_all add: tied_peers_def INT_MIN_def)
  have m3: "\<forall>p\<in>set three_peers. Some [2, 0, 0, 0, 0, 9] \<noteq> Some (take WIFI_MAC_ADDR_LEN (mac p))"
    by (simp add: three_peers_def WIFI_MAC_ADDR_LEN_def)
  have fa: "discovered_peers found_app = three_peers" "discovered_peer_count found_app = 3"
    "calls (p2p found_app) = []"
    by (simp_all add: found_app_def idle_app_def sample_module_def)
  from peer_selection [where cfg = auto_cfg and sc = sscanf_mac] auto
  have one: "select_target_peer auto_cfg sscanf_mac three_peers 3 = Some 1" by blast
  from peer_selection [where cfg = auto_cfg and sc = sscanf_mac and n = 2 and peers = tied_peers]
    auto t2 r2
  obtain k where k: "select_target_peer auto_cfg sscanf_mac tied_peers 2 = Some k" "k < 2"
    "\<forall>j<k. rssi (tied_peers ! j) < rssi (tied_peers ! k)"
    by auto
  have "k = 0"
  proof (rule ccontr)
    assume "k \<noteq> 0"
    with k(2) have "k = 1" by simp
    with k(3) have "rssi (tied_peers ! 0) < rssi (tied_peers ! 1)" by blast
    with r2(4) show False by simp
  qed
  with k have two: "select_target_peer auto_cfg sscanf_mac tied_peers 2 = Some 0" by simp
  from peer_selection [where cfg = filter_cfg and sc = sscanf_mac and n = 3
      and peers = three_peers and a = found_app and env = quiet_connect] flt pm t3 m3 fa
  have three: "select_target_peer filter_cfg sscanf_mac three_peers 3 = None"
    "\<not> p2p_pairing_in_progress (p2p_connect_handler filter_cfg sscanf_mac quiet_connect found_app)"
    "filter is_connect_req
       (calls (p2p (p2p_connect_handler filter_cfg sscanf_mac quiet_connect found_app))) = []"
    by simp_all
  show ?thesis using one two three by simp
qed

text \<open>
  C8. A start trigger that finds the in-flight flag set returns without changing
  anything. The connect sequence leaves the flag cleared on every path and for every
  behaviour of the environment: no peers, no target peer, a failed connect call, a
  group formation that times out or fails, and each of the three role branches. A start
  sequence that begins with the flag clear leaves it set exactly when it has submitted
  the connect work, so a pairing attempt as a whole ends with the flag cleared.
\<close>

theorem single_pairing_attempt:
  "(p2p_pairing_in_progress a \<longrightarrow> p2p_start_handler cfg senv a = a) \<and>
   \<not> p2p_pairing_in_progress (p2p_connect_handler cfg sc cenv a) \<and>
   (\<not> p2p_pairing_in_progress a \<and> \<not> connect_work_submitted a \<longrightarrow>
      p2p_pairing_in_progress (p2p_start_handler cfg senv a)
        = connect_work_submitted (p2p_start_handler cfg senv a) \<and>
      \<not> p2p_pairing_in_progress (pairing_attempt cfg sc senv cenv a))"
proof (intro conjI impI)
  assume "p2p_pairing_in_progress a"
  then show "p2p_start_handler cfg senv a = a" by (rule start_handler_rejects)
next
  show "\<not> p2p_pairing_in_progress (p2p_connect_handler cfg sc cenv a)"
    by (rule connect_handler_clears)
next
  assume h: "\<not> p2p_pairing_in_progress a \<and> \<not> connect_work_submitted a"
  then show fl: "p2p_pairing_in_progress (p2p_start_handler cfg senv a)
        = connect_work_submitted (p2p_start_handler cfg senv a)"
    by (simp add: start_handler_flag)
  show "\<not> p2p_pairing_in_progress (pairing_attempt cfg sc senv cenv a)"
  proof (cases "connect_work_submitted (p2p_start_handler cfg senv a)")
    case True
    then show ?thesis by (simp add: pairing_attempt_def connect_handler_clears)
  next
    case False
    with fl show ?thesis by (simp add: pairing_attempt_def)
  qed
qed

theorem single_pairing_attempt_witness:
  "p2p_start_handler auto_cfg busy_start found_app = found_app \<and>
   \<not> p2p_pairing_in_progress (p2p_connect_handler auto_cfg sscanf_mac go_connect found_app) \<and>
   p2p_pairing_in_progress (p2p_start_handler auto_cfg busy_start idle_app)
     = connect_work_submitted (p2p_start_handler auto_cfg busy_start idle_app) \<and>
   \<not> p2p_pairing_in_progress (pairing_attempt auto_cfg sscanf_mac busy_start go_connect idle_app)"
proof -
  have f: "p2p_pairing_in_progress found_app"
    by (simp add: found_app_def)
  have i: "\<not> p2p_pairing_in_progress idle_app" "\<not> connect_work_submitted idle_app"
    by (simp_all add: idle_app_def)
  from single_pairing_attempt [of found_app auto_cfg busy_start sscanf_mac go_connect] f
  have a: "p2p_start_handler auto_cfg busy_start found_app = found_app"
    and b: "\<not> p2p_pairing_in_progress (p2p_connect_handler auto_cfg sscanf_mac go_connect found_app)"
    by blast+
  from single_pairing_attempt [of idle_app auto_cfg busy_start sscanf_mac go_connect] i
  have c: "p2p_pairing_in_progress (p2p_start_handler auto_cfg busy_start idle_app)
     = connect_work_submitted (p2p_start_handler auto_cfg busy_start idle_app)"
    and d: "\<not> p2p_pairing_in_progress (pairing_attempt auto_cfg sscanf_mac busy_start go_connect idle_app)"
    by blast+
  show ?thesis using a b c d by simp
qed

section \<open>Stopping the echo session\<close>

text \<open>
  C3. \<^verbatim>\<open>stop_udp_echo\<close> sets the stop flag, sleeps 500 ms and then closes the socket.
  The client's receive wait lasts up to \<^verbatim>\<open>UDP_RECV_TIMEOUT_MS\<close> = 2000 ms, and the
  loop reads the flag only when the wait is over. So the grace period is shorter than
  the receive timeout: with a stop right after the loop entered a receive that gets no
  reply, the socket is closed 500 ms later, while the receive is outstanding.
\<close>

theorem stop_echo_grace_period:
  "udp_echo_stop_flag (stop_udp_echo echo_app) \<and>
   udp_socket (stop_udp_echo echo_app) = - 1 \<and>
   app_calls (stop_udp_echo echo_app)
     = [KSleep 500, SocketClose 3, PrintStats (udp_echo_print_stats (Some zero_stats))] \<and>
   close_delay (app_calls (stop_udp_echo echo_app)) = Some 500 \<and>
   500 < UDP_RECV_TIMEOUT_MS"
  by (simp add: stop_udp_echo_def udp_client_cleanup_def app_call_def echo_app_def idle_app_def
      UDP_RECV_TIMEOUT_MS_def Let_def)

end
